theory Spec2Isabelle
  imports Complex_Main "HOL-Library.Product_Lexorder"
begin

section \<open>AeroPredict: maintenance cost analytics, supplier ranking, degradation series\<close>

text \<open>
  A shallow embedding of \<^verbatim>\<open>aeropredict_system.py\<close> and \<^verbatim>\<open>config.py\<close>.
  Python integers are \<open>int\<close>. SQLite columns of type REAL and Python floats are \<open>real\<close>.
  The amounts of money of the program are whole numbers far below \<open>2^53\<close>, on which
  doubles add and multiply exactly, and the sensor values are idealised: both are computed
  in exact arithmetic. The scores of the supplier ranker are computed in binary64
  arithmetic, every operation rounded. A Python exception is a value \<open>Inl e\<close> of a sum
  type; an SQL NULL and Python's \<open>None\<close> are \<open>None\<close> of an option type.
\<close>

datatype py_error = TypeError | ValueError | ZeroDivisionError

subsection \<open>Cost parameters of \<^verbatim>\<open>Config\<close>\<close>

definition PREDICTIVE_LABOR_COST :: int where "PREDICTIVE_LABOR_COST = 2300"
definition PREDICTIVE_PARTS_COST :: int where "PREDICTIVE_PARTS_COST = 4200"
definition PREDICTIVE_DOWNTIME_HOURS :: int where "PREDICTIVE_DOWNTIME_HOURS = 6"
definition REACTIVE_LABOR_COST :: int where "REACTIVE_LABOR_COST = 18000"
definition REACTIVE_PARTS_COST :: int where "REACTIVE_PARTS_COST = 12600"
definition REACTIVE_DOWNTIME_HOURS :: int where "REACTIVE_DOWNTIME_HOURS = 48"
definition REACTIVE_FLIGHT_CANCELLATIONS :: int where "REACTIVE_FLIGHT_CANCELLATIONS = 3"
definition COST_PER_CANCELLATION :: int where "COST_PER_CANCELLATION = 2000"

definition TOTAL_PREDICTIVE_COST :: int where
  "TOTAL_PREDICTIVE_COST = PREDICTIVE_LABOR_COST + PREDICTIVE_PARTS_COST"

definition TOTAL_REACTIVE_COST :: int where
  "TOTAL_REACTIVE_COST =
     REACTIVE_LABOR_COST + REACTIVE_PARTS_COST
       + REACTIVE_FLIGHT_CANCELLATIONS * COST_PER_CANCELLATION"

subsection \<open>The tables of the database\<close>

text \<open>
  One record per table row, with the columns of \<^verbatim>\<open>create_database\<close> that the modelled
  queries read or write. \<open>date_performed\<close> is the day the stored \<^verbatim>\<open>%Y-%m-%d\<close> string
  denotes, as a day number. \<open>is_predictive\<close> is stored as 1 or 0.
\<close>

record maintenance_record =
  aircraft_id :: string
  component_id :: string
  maintenance_type :: string
  date_performed :: int
  labor_cost :: real
  parts_cost :: real
  total_cost :: real
  downtime_hours :: int
  is_predictive :: bool

text \<open>
  A row of \<^verbatim>\<open>cost_analytics\<close> without its key \<open>period\<close>. The two columns that the
  program fills with SQL results it never computes with can hold NULL.
\<close>

record analytics_row =
  total_maintenance_events :: int
  predictive_maintenance_count :: int
  reactive_maintenance_count :: "int option"
  total_cost_predictive :: real
  total_cost_reactive :: "real option"
  total_savings :: real
  downtime_hours_saved :: int
  flights_cancelled_avoided :: int

record supplier_row =
  s_supplier_id :: string
  s_name :: string
  s_location :: string
  s_rating :: real
  s_avg_delivery_days :: int
  s_reliability_score :: real

record supplier_part_row =
  sp_supplier_id :: string
  sp_part_number :: string
  sp_unit_price :: real
  sp_min_quantity :: int
  sp_delivery_days :: int

record database =
  maintenance_history :: "maintenance_record list"
  cost_analytics :: "string \<rightharpoonup> analytics_row"
  suppliers :: "supplier_row list"
  supplier_parts :: "supplier_part_row list"

subsection \<open>Synthesis of the maintenance history (\<^verbatim>\<open>generate_cost_analytics\<close>, first half)\<close>

definition digit_char :: "nat \<Rightarrow> char" where
  "digit_char d = ''0123456789'' ! d"

fun str_nat :: "nat \<Rightarrow> string" where
  "str_nat n = (if n < 10 then [digit_char n] else str_nat (n div 10) @ [digit_char (n mod 10)])"

declare str_nat.simps [simp del]

text \<open>The format specification \<^verbatim>\<open>:03d\<close>: decimal, padded with zeros to width 3.\<close>

definition format_03d :: "nat \<Rightarrow> string" where
  "format_03d n = replicate (3 - length (str_nat n)) (CHR ''0'') @ str_nat n"

text \<open>
  The body of the loop \<^verbatim>\<open>for i in range(12)\<close>; \<open>now\<close> is the day number of
  \<^verbatim>\<open>datetime.now()\<close>.
\<close>

definition predictive_record :: "int \<Rightarrow> nat \<Rightarrow> maintenance_record" where
  "predictive_record now i =
     \<lparr>aircraft_id = ''A320-'' @ format_03d (i mod 3 + 1),
      component_id = ''A320-'' @ format_03d (i mod 3 + 1) @ ''-E'' @ str_nat (i mod 4 + 1) @ ''-TURB'',
      maintenance_type = ''Predictive'',
      date_performed = now - int i * 7,
      labor_cost = 2300,
      parts_cost = 4200,
      total_cost = 6500,
      downtime_hours = 6,
      is_predictive = True\<rparr>"

text \<open>The body of the loop \<^verbatim>\<open>for i in range(3)\<close>.\<close>

definition reactive_record :: "int \<Rightarrow> nat \<Rightarrow> maintenance_record" where
  "reactive_record now i =
     \<lparr>aircraft_id = ''B737-001'',
      component_id = ''B737-001-E'' @ str_nat (i mod 4 + 1) @ ''-TURB'',
      maintenance_type = ''Reactive'',
      date_performed = now - int i * 30,
      labor_cost = 18000,
      parts_cost = 12600,
      total_cost = 52000,
      downtime_hours = 48,
      is_predictive = False\<rparr>"

text \<open>
  The list \<^verbatim>\<open>maintenance_records\<close> for \<open>P\<close> predictive and \<open>R\<close> reactive events; the
  program builds it for \<open>P = 12\<close> and \<open>R = 3\<close>.
\<close>

definition synthesize :: "nat \<Rightarrow> nat \<Rightarrow> int \<Rightarrow> maintenance_record list" where
  "synthesize P R now = map (predictive_record now) [0..<P] @ map (reactive_record now) [0..<R]"

definition maintenance_records :: "int \<Rightarrow> maintenance_record list" where
  "maintenance_records now = synthesize 12 3 now"

definition insert_maintenance_history :: "maintenance_record list \<Rightarrow> database \<Rightarrow> database" where
  "insert_maintenance_history recs db =
     db\<lparr>maintenance_history := maintenance_history db @ recs\<rparr>"

subsection \<open>The aggregate query and the savings (\<^verbatim>\<open>generate_cost_analytics\<close>, second half)\<close>

text \<open>
  SQL aggregates over the rows of a table: \<^verbatim>\<open>COUNT(*)\<close> of no rows is 0, \<^verbatim>\<open>SUM\<close> of no
  rows is NULL. Each summand of the query is a \<^verbatim>\<open>CASE ... ELSE 0 END\<close>, which is never
  NULL on a row. The sums are unbounded: the error that SQLite raises when a sum of
  INTEGERs leaves the 64-bit range is not modelled, and a result of the model describes
  the code only on tables whose sums stay within that range.
\<close>

definition sql_count :: "'a list \<Rightarrow> int" where
  "sql_count rows = int (length rows)"

definition sql_sum :: "'a::monoid_add list \<Rightarrow> 'a option" where
  "sql_sum vs = (if vs = [] then None else Some (sum_list vs))"

definition select_analytics ::
  "maintenance_record list \<Rightarrow>
     int \<times> int option \<times> int option \<times> real option \<times> real option \<times> int option \<times> int option" where
  "select_analytics rows =
     (sql_count rows,
      sql_sum (map (\<lambda>r. if is_predictive r then 1 else 0) rows),
      sql_sum (map (\<lambda>r. if \<not> is_predictive r then 1 else 0) rows),
      sql_sum (map (\<lambda>r. if is_predictive r then total_cost r else 0) rows),
      sql_sum (map (\<lambda>r. if \<not> is_predictive r then total_cost r else 0) rows),
      sql_sum (map (\<lambda>r. if is_predictive r then downtime_hours r else 0) rows),
      sql_sum (map (\<lambda>r. if \<not> is_predictive r then downtime_hours r else 0) rows))"

text \<open>
  The arithmetic after \<^verbatim>\<open>cursor.fetchone()\<close>. A product or a difference with \<^verbatim>\<open>None\<close>
  raises \<^verbatim>\<open>TypeError\<close>; \<open>react_count\<close> and \<open>react_cost\<close> are stored as they came.
\<close>

definition calculate_savings ::
  "int \<times> int option \<times> int option \<times> real option \<times> real option \<times> int option \<times> int option
     \<Rightarrow> py_error + analytics_row" where
  "calculate_savings result =
     (case result of
        (total_events, pred_count, react_count, pred_cost, react_cost, pred_downtime, react_downtime) \<Rightarrow>
          (case pred_count of
             None \<Rightarrow> Inl TypeError
           | Some pc \<Rightarrow>
               (let avoided_reactive_cost = pc * 52000 in
                case pred_cost of
                  None \<Rightarrow> Inl TypeError
                | Some actual_cost \<Rightarrow>
                    (let savings = real_of_int avoided_reactive_cost - actual_cost in
                     case pred_downtime of
                       None \<Rightarrow> Inl TypeError
                     | Some pd \<Rightarrow>
                         (let downtime_saved = pc * 48 - pd;
                              flights_saved = pc * 3
                          in Inr \<lparr>total_maintenance_events = total_events,
                                  predictive_maintenance_count = pc,
                                  reactive_maintenance_count = react_count,
                                  total_cost_predictive = actual_cost,
                                  total_cost_reactive = react_cost,
                                  total_savings = savings,
                                  downtime_hours_saved = downtime_saved,
                                  flights_cancelled_avoided = flights_saved\<rparr>)))))"

definition calculate_analytics :: "maintenance_record list \<Rightarrow> py_error + analytics_row" where
  "calculate_analytics rows = calculate_savings (select_analytics rows)"

text \<open>
  The aggregator: query, arithmetic and \<^verbatim>\<open>INSERT OR REPLACE INTO cost_analytics\<close> under the
  primary key \<^verbatim>\<open>"2024-Q4"\<close>.
\<close>

definition aggregate :: "database \<Rightarrow> py_error + database" where
  "aggregate db =
     (case calculate_analytics (maintenance_history db) of
        Inl e \<Rightarrow> Inl e
      | Inr a \<Rightarrow> Inr (db\<lparr>cost_analytics := (cost_analytics db)(''2024-Q4'' \<mapsto> a)\<rparr>))"

definition generate_cost_analytics :: "int \<Rightarrow> database \<Rightarrow> py_error + database" where
  "generate_cost_analytics now db =
     aggregate (insert_maintenance_history (maintenance_records now) db)"

text \<open>\<^verbatim>\<open>get_cost_calculator_data\<close>: the stored row of the period, or \<^verbatim>\<open>None\<close>.\<close>

definition get_cost_calculator_data :: "database \<Rightarrow> analytics_row option" where
  "get_cost_calculator_data db = cost_analytics db ''2024-Q4''"


subsection \<open>REAL values and their arithmetic in SQLite\<close>

text \<open>
  A REAL of SQLite is an IEEE binary64 number, and the arithmetic of SQL expressions on
  REALs is the arithmetic of C doubles: every operation yields the exact result rounded to
  the nearest binary64 number, ties to the even significand. \<open>round_binary64\<close> is that
  rounding on the reals: 53 significant bits, the exponent of the last bit not below
  \<open>-1074\<close> (gradual underflow). \<open>floor_log2 x\<close> is the exponent of the leading bit of
  \<open>x > 0\<close>, found by halving or doubling; beyond the 1100 steps it is given, the rounding
  no longer depends on it (the result overflows, or the exponent is held at \<open>-1074\<close>).
\<close>

definition round_half_even :: "real \<Rightarrow> int" where
  "round_half_even x =
     (let f = \<lfloor>x\<rfloor>; d = x - real_of_int f
      in if d < 1 / 2 then f else if 1 / 2 < d then f + 1 else if even f then f else f + 1)"

fun log2_halving :: "nat \<Rightarrow> real \<Rightarrow> int" where
  "log2_halving 0 x = 0"
| "log2_halving (Suc fuel) x = (if x < 2 then 0 else 1 + log2_halving fuel (x / 2))"

fun log2_doubling :: "nat \<Rightarrow> real \<Rightarrow> int" where
  "log2_doubling 0 x = 0"
| "log2_doubling (Suc fuel) x = (if 1 \<le> x then 0 else log2_doubling fuel (x * 2) - 1)"

definition floor_log2 :: "real \<Rightarrow> int" where
  "floor_log2 x = (if 1 \<le> x then log2_halving 1100 x else log2_doubling 1100 x)"

definition pow2 :: "int \<Rightarrow> real" where
  "pow2 e = (if 0 \<le> e then 2 ^ nat e else 1 / 2 ^ nat (- e))"

definition round_binary64 :: "real \<Rightarrow> real" where
  "round_binary64 x =
     (if x = 0 then 0
      else (let e = max (floor_log2 \<bar>x\<bar> - 52) (- 1074)
            in real_of_int (round_half_even (x / pow2 e)) * pow2 e))"

text \<open>
  A binary64 number is finite or an infinity; a rounded result of magnitude \<open>2^1024\<close> or
  more overflows to an infinity. An operation without a result (NaN) yields NULL in SQLite,
  the \<open>None\<close> of the option type, and an operation on NULL yields NULL.
\<close>

datatype double = NegInf | Finite real | PosInf

definition to_double :: "real \<Rightarrow> double" where
  "to_double x =
     (let y = round_binary64 x
      in if 2 ^ 1024 \<le> y then PosInf else if y \<le> - (2 ^ 1024) then NegInf else Finite y)"

fun is_negative :: "double \<Rightarrow> bool" where
  "is_negative NegInf = True"
| "is_negative (Finite a) = (a < 0)"
| "is_negative PosInf = False"

fun d_neg :: "double \<Rightarrow> double" where
  "d_neg NegInf = PosInf"
| "d_neg (Finite a) = Finite (- a)"
| "d_neg PosInf = NegInf"

fun d_add :: "double \<Rightarrow> double \<Rightarrow> double option" where
  "d_add (Finite a) (Finite b) = Some (to_double (a + b))"
| "d_add PosInf NegInf = None"
| "d_add NegInf PosInf = None"
| "d_add PosInf y = Some PosInf"
| "d_add x PosInf = Some PosInf"
| "d_add NegInf y = Some NegInf"
| "d_add x NegInf = Some NegInf"

fun d_mul :: "double \<Rightarrow> double \<Rightarrow> double option" where
  "d_mul (Finite a) (Finite b) = Some (to_double (a * b))"
| "d_mul x y =
     (if x = Finite 0 \<or> y = Finite 0 then None
      else Some (if is_negative x = is_negative y then PosInf else NegInf))"

definition sql_add :: "double option \<Rightarrow> double option \<Rightarrow> double option" where
  "sql_add a b = (case (a, b) of (Some x, Some y) \<Rightarrow> d_add x y | _ \<Rightarrow> None)"

definition sql_sub :: "double option \<Rightarrow> double option \<Rightarrow> double option" where
  "sql_sub a b = (case (a, b) of (Some x, Some y) \<Rightarrow> d_add x (d_neg y) | _ \<Rightarrow> None)"

definition sql_mul :: "double option \<Rightarrow> double option \<Rightarrow> double option" where
  "sql_mul a b = (case (a, b) of (Some x, Some y) \<Rightarrow> d_mul x y | _ \<Rightarrow> None)"

text \<open>A numeric literal of the SQL text, and an INTEGER operand of a REAL operation.\<close>

definition sql_literal :: "real \<Rightarrow> double option" where
  "sql_literal x = Some (to_double x)"

definition int_to_real :: "int \<Rightarrow> double option" where
  "int_to_real n = Some (to_double (real_of_int n))"

text \<open>
  The product of two INTEGERs is an INTEGER while it fits in 64 bits; otherwise SQLite
  multiplies the operands as REALs. The result is given as the REAL that the next
  operation converts it to.
\<close>

definition in_int64 :: "int \<Rightarrow> bool" where
  "in_int64 n \<longleftrightarrow> - (2 ^ 63) \<le> n \<and> n < 2 ^ 63"

definition int_mul :: "int \<Rightarrow> int \<Rightarrow> double option" where
  "int_mul a b =
     (if in_int64 (a * b) then int_to_real (a * b) else sql_mul (int_to_real a) (int_to_real b))"

text \<open>
  The order of \<^verbatim>\<open>ORDER BY ... ASC\<close> on such values: NULL first, then the numbers, with
  the infinities at the two ends. \<open>order_key\<close> maps a value to a pair that the
  lexicographic order of pairs compares in that way.
\<close>

definition order_key :: "double option \<Rightarrow> nat \<times> real" where
  "order_key v =
     (case v of
        None \<Rightarrow> (0, 0)
      | Some NegInf \<Rightarrow> (1, 0)
      | Some (Finite x) \<Rightarrow> (2, x)
      | Some PosInf \<Rightarrow> (3, 0))"

definition sql_le :: "double option \<Rightarrow> double option \<Rightarrow> bool" where
  "sql_le a b \<longleftrightarrow> order_key a \<le> order_key b"

subsection \<open>The supplier ranker (\<^verbatim>\<open>find_best_supplier\<close>)\<close>

text \<open>
  An offer is a row of the join of \<^verbatim>\<open>supplier_parts\<close> with \<^verbatim>\<open>suppliers\<close> on the supplier
  identifier, restricted to the requested part number. The REAL columns hold the values of
  the stored binary64 numbers.
\<close>

type_synonym offer = "supplier_part_row \<times> supplier_row"

definition supplier_offers :: "database \<Rightarrow> string \<Rightarrow> offer list" where
  "supplier_offers db part_number =
     [(sp, s). sp \<leftarrow> supplier_parts db, s \<leftarrow> suppliers db,
               sp_supplier_id sp = s_supplier_id s, sp_part_number sp = part_number]"

text \<open>
  The expression of the \<^verbatim>\<open>ORDER BY\<close> clause,
  \<^verbatim>\<open>sp.unit_price * 0.4 + sp.delivery_days * 100 * 0.3 + (5-s.rating) * 500 * 0.3\<close>,
  as SQLite evaluates it: products before sums, from left to right, every operation on
  REALs rounded.
\<close>

definition score :: "offer \<Rightarrow> double option" where
  "score = (\<lambda>(sp, s).
     sql_add
       (sql_add
          (sql_mul (Some (Finite (sp_unit_price sp))) (sql_literal (4 / 10)))
          (sql_mul (int_mul (sp_delivery_days sp) 100) (sql_literal (3 / 10))))
       (sql_mul
          (sql_mul (sql_sub (int_to_real 5) (Some (Finite (s_rating s)))) (int_to_real 500))
          (sql_literal (3 / 10))))"

text \<open>
  The score as the specification writes it, in exact arithmetic, to compare the code with.
\<close>

definition spec_score :: "offer \<Rightarrow> real" where
  "spec_score = (\<lambda>(sp, s).
     sp_unit_price sp * (4 / 10) + real_of_int (sp_delivery_days sp) * 100 * (3 / 10)
       + (5 - s_rating s) * 500 * (3 / 10))"

text \<open>
  \<^verbatim>\<open>ORDER BY key ASC LIMIT 1\<close> followed by \<^verbatim>\<open>fetchone()\<close>: the first row of the sorted
  result, \<^verbatim>\<open>None\<close> when there is no row.
\<close>

definition order_by_limit_1 :: "('a \<Rightarrow> 'k::linorder) \<Rightarrow> 'a list \<Rightarrow> 'a option" where
  "order_by_limit_1 key rows = (case sort_key key rows of [] \<Rightarrow> None | row # _ \<Rightarrow> Some row)"

text \<open>The dictionary that \<^verbatim>\<open>find_best_supplier\<close> returns, one field per key.\<close>

record best_supplier =
  supplier :: string
  location :: string
  rating :: real
  price :: real
  delivery_days :: int
  reliability :: real

definition summary :: "offer \<Rightarrow> best_supplier" where
  "summary = (\<lambda>(sp, s).
     \<lparr>supplier = s_name s,
      location = s_location s,
      rating = s_rating s,
      price = sp_unit_price sp,
      delivery_days = sp_delivery_days sp,
      reliability = s_reliability_score s\<rparr>)"

definition find_best_supplier :: "database \<Rightarrow> string \<Rightarrow> best_supplier option" where
  "find_best_supplier db part_number =
     (case order_by_limit_1 (\<lambda>row. order_key (score row)) (supplier_offers db part_number) of
        None \<Rightarrow> None
      | Some result \<Rightarrow> Some (summary result))"

text \<open>
  A database holding the two offers of the ranking scenario for part \<^verbatim>\<open>HPT-8472-A\<close>:
  price 4200, 5 days, rating 4.8 and price 4000, 7 days, rating 4.5. A decimal such as 4.8
  is stored as the binary64 number nearest to it.
\<close>

definition scenario_db :: database where
  "scenario_db =
     \<lparr>maintenance_history = [],
      cost_analytics = Map.empty,
      suppliers =
        [\<lparr>s_supplier_id = ''SUP-001'', s_name = ''GE Aviation Parts'',
          s_location = ''Cincinnati, OH'', s_rating = round_binary64 (48 / 10),
          s_avg_delivery_days = 5, s_reliability_score = round_binary64 (98 / 100)\<rparr>,
         \<lparr>s_supplier_id = ''SUP-004'', s_name = ''AAR Corp'',
          s_location = ''Wood Dale, IL'', s_rating = round_binary64 (45 / 10),
          s_avg_delivery_days = 4, s_reliability_score = round_binary64 (94 / 100)\<rparr>],
      supplier_parts =
        [\<lparr>sp_supplier_id = ''SUP-001'', sp_part_number = ''HPT-8472-A'', sp_unit_price = 4200,
          sp_min_quantity = 1, sp_delivery_days = 5\<rparr>,
         \<lparr>sp_supplier_id = ''SUP-004'', sp_part_number = ''HPT-8472-A'', sp_unit_price = 4000,
          sp_min_quantity = 1, sp_delivery_days = 7\<rparr>]\<rparr>"

text \<open>
  Two offers for part \<^verbatim>\<open>SEAL-4432-D\<close> (standard price 850) of the kind that
  \<^verbatim>\<open>add_supply_chain_data\<close> writes, a price within five percent of the standard price and
  the delivery days of the supplier or one less: Honeywell Aerospace at
  821.6956045399569 in 4 days, GE Aviation Parts at 821.695604539957 in 5 days. The prices
  are binary64 numbers, written as fractions.
\<close>

definition rounding_db :: database where
  "rounding_db =
     \<lparr>maintenance_history = [],
      cost_analytics = Map.empty,
      suppliers =
        [\<lparr>s_supplier_id = ''SUP-001'', s_name = ''GE Aviation Parts'',
          s_location = ''Cincinnati, OH'', s_rating = round_binary64 (48 / 10),
          s_avg_delivery_days = 5, s_reliability_score = round_binary64 (98 / 100)\<rparr>,
         \<lparr>s_supplier_id = ''SUP-005'', s_name = ''Honeywell Aerospace'',
          s_location = ''Phoenix, AZ'', s_rating = round_binary64 (46 / 10),
          s_avg_delivery_days = 5, s_reliability_score = round_binary64 (95 / 100)\<rparr>],
      supplier_parts =
        [\<lparr>sp_supplier_id = ''SUP-005'', sp_part_number = ''SEAL-4432-D'',
          sp_unit_price = 7227710973472899 / 8796093022208,
          sp_min_quantity = 1, sp_delivery_days = 4\<rparr>,
         \<lparr>sp_supplier_id = ''SUP-001'', sp_part_number = ''SEAL-4432-D'',
          sp_unit_price = 1806927743368225 / 2199023255552,
          sp_min_quantity = 1, sp_delivery_days = 5\<rparr>]\<rparr>"

subsection \<open>The degradation series (\<^verbatim>\<open>create_nasa_sample_data\<close>)\<close>

text \<open>
  numpy's global generator is not part of the program. Its state has an arbitrary type
  \<open>'g\<close>; \<open>seed_state\<close> is the state that \<^verbatim>\<open>np.random.seed\<close> installs and \<open>next_raw\<close>
  yields the next raw output and the advanced state. The sampling functions follow numpy's
  documentation: \<^verbatim>\<open>randint(low, high)\<close> returns an integer of the half-open interval
  from \<open>low\<close> up to \<open>high\<close>, excluding \<open>high\<close>, and raises \<^verbatim>\<open>ValueError\<close> when
  \<open>low >= high\<close>; \<^verbatim>\<open>uniform(low, high)\<close> returns \<open>low + (high - low) * x\<close> for a
  53-bit fraction \<open>x\<close> with \<open>0 \<le> x < 1\<close>; \<^verbatim>\<open>seed\<close> accepts \<open>0 \<le> seed < 2^32\<close>.
\<close>

record 'g np_random =
  seed_state :: "int \<Rightarrow> 'g"
  next_raw :: "'g \<Rightarrow> nat \<times> 'g"

definition np_seed :: "'g np_random \<Rightarrow> int \<Rightarrow> 'g \<Rightarrow> py_error + 'g" where
  "np_seed B seed g =
     (if 0 \<le> seed \<and> seed < 2 ^ 32 then Inr (seed_state B seed) else Inl ValueError)"

definition randint :: "'g np_random \<Rightarrow> int \<Rightarrow> int \<Rightarrow> 'g \<Rightarrow> py_error + int \<times> 'g" where
  "randint B low high g =
     (if low \<ge> high then Inl ValueError
      else (case next_raw B g of (r, g') \<Rightarrow> Inr (low + int r mod (high - low), g')))"

definition uniform :: "'g np_random \<Rightarrow> real \<Rightarrow> real \<Rightarrow> 'g \<Rightarrow> real \<times> 'g" where
  "uniform B low high g =
     (case next_raw B g of (r, g') \<Rightarrow> (low + (high - low) * (real_of_int (int r mod 2 ^ 53) / 2 ^ 53), g'))"

text \<open>A row of \<^verbatim>\<open>train_data\<close>; \<open>sensor\<close> holds the columns \<open>sensor_1\<close> to \<open>sensor_21\<close>.\<close>

record reading =
  unit_id :: int
  time_cycle :: int
  setting1 :: real
  setting2 :: real
  setting3 :: real
  sensor :: "real list"

definition sensor_readings :: "real \<Rightarrow> real list" where
  "sensor_readings degradation_factor =
     [518.67 + degradation_factor * 15,
      641.82 + degradation_factor * 20,
      1589.7 + degradation_factor * 100,
      1400.6 + degradation_factor * 50,
      14.62 - degradation_factor * 2,
      21.61,
      554.36 + degradation_factor * 25,
      2388.0 + degradation_factor * 80,
      9046.2 - degradation_factor * 100,
      1.30,
      47.47 + degradation_factor * 8,
      521.66 + degradation_factor * 15,
      2388.0 + degradation_factor * 80,
      8138.6 - degradation_factor * 90,
      8.4195 - degradation_factor * 0.5,
      0.03 + degradation_factor * 0.01,
      392 + degradation_factor * 30,
      2388 + degradation_factor * 80,
      100.0,
      38.86 + degradation_factor * 5,
      23.419 - degradation_factor * 1]"

text \<open>
  The inner loop \<^verbatim>\<open>for cycle in range(1, cycles + 1)\<close> over the cycles still to do,
  threading the generator state through the three draws of each row.
\<close>

fun cycle_loop :: "'g np_random \<Rightarrow> int \<Rightarrow> int \<Rightarrow> int list \<Rightarrow> 'g \<Rightarrow> reading list \<times> 'g" where
  "cycle_loop B u cycles [] g = ([], g)"
| "cycle_loop B u cycles (cycle # rest) g =
     (let degradation_factor = real_of_int cycle / real_of_int cycles in
      case uniform B (- 0.0007) 0.0020 g of (s1, g1) \<Rightarrow>
      case uniform B 0.0000 0.0005 g1 of (s2, g2) \<Rightarrow>
      case uniform B 100 100 g2 of (s3, g3) \<Rightarrow>
      case cycle_loop B u cycles rest g3 of (rows, g') \<Rightarrow>
        (\<lparr>unit_id = u, time_cycle = cycle, setting1 = s1, setting2 = s2, setting3 = s3,
          sensor = sensor_readings degradation_factor\<rparr> # rows, g'))"

text \<open>
  The outer loop \<^verbatim>\<open>for unit_id in range(1, 101)\<close> over the units still to do, with the
  bounds of \<^verbatim>\<open>randint\<close> as parameters.
\<close>

fun unit_loop :: "'g np_random \<Rightarrow> int \<Rightarrow> int \<Rightarrow> int list \<Rightarrow> 'g \<Rightarrow> py_error + reading list" where
  "unit_loop B low high [] g = Inr []"
| "unit_loop B low high (u # us) g =
     (case randint B low high g of
        Inl e \<Rightarrow> Inl e
      | Inr (cycles, g1) \<Rightarrow>
          (case cycle_loop B u cycles [1..cycles] g1 of (rows, g2) \<Rightarrow>
             (case unit_loop B low high us g2 of
                Inl e \<Rightarrow> Inl e
              | Inr others \<Rightarrow> Inr (rows @ others))))"

text \<open>pandas' \<^verbatim>\<open>unique()\<close>: the distinct values in order of first appearance.\<close>

fun unique :: "'a list \<Rightarrow> 'a list" where
  "unique [] = []"
| "unique (x # xs) = x # unique (removeAll x xs)"

text \<open>
  The second pass: for each unit, the rows of the unit, their largest cycle, and one RUL
  per row of the unit, appended to \<^verbatim>\<open>rul_data\<close>.
\<close>

definition calculate_rul :: "reading list \<Rightarrow> int list" where
  "calculate_rul df =
     concat (map (\<lambda>u.
        let unit_data = filter (\<lambda>row. unit_id row = u) df;
            max_cycle = Max (set (map time_cycle unit_data))
        in map (\<lambda>row. max_cycle - time_cycle row) unit_data)
      (unique (map unit_id df)))"

text \<open>
  \<^verbatim>\<open>df['RUL'] = rul_data\<close>: the list becomes a column by position; pandas raises
  \<^verbatim>\<open>ValueError\<close> when its length is not the number of rows.
\<close>

definition assign_column :: "'a list \<Rightarrow> 'b list \<Rightarrow> py_error + ('a \<times> 'b) list" where
  "assign_column df col = (if length col \<noteq> length df then Inl ValueError else Inr (zip df col))"

text \<open>
  The generator with its constants as parameters; \<open>g\<close> is the state of the global
  generator when the function is entered.
\<close>

definition create_nasa_sample_data_with ::
  "'g np_random \<Rightarrow> int \<Rightarrow> int \<Rightarrow> int \<Rightarrow> int \<Rightarrow> 'g \<Rightarrow> py_error + (reading \<times> int) list" where
  "create_nasa_sample_data_with B unit_count min_cycles max_cycles seed g =
     (case np_seed B seed g of
        Inl e \<Rightarrow> Inl e
      | Inr g0 \<Rightarrow>
          (case unit_loop B min_cycles max_cycles [1..unit_count] g0 of
             Inl e \<Rightarrow> Inl e
           | Inr train_data \<Rightarrow> assign_column train_data (calculate_rul train_data)))"

text \<open>The generator as the program calls it: 100 units, \<^verbatim>\<open>randint(150, 350)\<close>, seed 42.\<close>

definition create_nasa_sample_data :: "'g np_random \<Rightarrow> 'g \<Rightarrow> py_error + (reading \<times> int) list" where
  "create_nasa_sample_data B g = create_nasa_sample_data_with B 100 150 350 42 g"

text \<open>
  The lifespans \<open>N\<^sub>u\<close> that a run draws, one per unit, in the order of the units: the
  results of the calls of \<^verbatim>\<open>randint\<close> along the state threading of \<open>unit_loop\<close>.
\<close>

fun lifespans :: "'g np_random \<Rightarrow> int \<Rightarrow> int \<Rightarrow> int list \<Rightarrow> 'g \<Rightarrow> int list" where
  "lifespans B low high [] g = []"
| "lifespans B low high (u # us) g =
     (case randint B low high g of
        Inl e \<Rightarrow> []
      | Inr (cycles, g1) \<Rightarrow>
          cycles # lifespans B low high us (snd (cycle_loop B u cycles [1..cycles] g1)))"

text \<open>A small linear congruential generator, to run the model on.\<close>

definition lcg :: "nat np_random" where
  "lcg = \<lparr>seed_state = (\<lambda>seed. nat seed), next_raw = (\<lambda>g. (g, (g * 5 + 3) mod 16))\<rparr>"

section \<open>Cost analytics\<close>

lemma calculate_analytics_Nil: "calculate_analytics [] = Inl TypeError"
  by (simp add: calculate_analytics_def select_analytics_def calculate_savings_def sql_sum_def)

lemma calculate_analytics_nonempty:
  "rows \<noteq> [] \<Longrightarrow> calculate_analytics rows =
     Inr \<lparr>total_maintenance_events = int (length rows),
          predictive_maintenance_count = (\<Sum>r\<leftarrow>rows. if is_predictive r then 1 else 0),
          reactive_maintenance_count = Some (\<Sum>r\<leftarrow>rows. if \<not> is_predictive r then 1 else 0),
          total_cost_predictive = (\<Sum>r\<leftarrow>rows. if is_predictive r then total_cost r else 0),
          total_cost_reactive = Some (\<Sum>r\<leftarrow>rows. if \<not> is_predictive r then total_cost r else 0),
          total_savings = real_of_int ((\<Sum>r\<leftarrow>rows. if is_predictive r then 1 else 0) * 52000)
             - (\<Sum>r\<leftarrow>rows. if is_predictive r then total_cost r else 0),
          downtime_hours_saved = (\<Sum>r\<leftarrow>rows. if is_predictive r then 1 else 0) * 48
             - (\<Sum>r\<leftarrow>rows. if is_predictive r then downtime_hours r else 0),
          flights_cancelled_avoided = (\<Sum>r\<leftarrow>rows. if is_predictive r then 1 else 0) * 3\<rparr>"
  by (simp add: calculate_analytics_def select_analytics_def calculate_savings_def sql_sum_def sql_count_def)

lemma sum_if_count: "(\<Sum>r\<leftarrow>rows. if P r then 1 else 0) = int (length (filter P rows))"
  by (induction rows) auto

lemma sum_if_filter: "(\<Sum>r\<leftarrow>rows. if P r then f r else 0) = sum_list (map f (filter P rows))"
  for f :: "'a \<Rightarrow> 'b::monoid_add"
  by (induction rows) auto

lemma filter_pred_synth:
  "filter is_predictive (synthesize P R now) = map (predictive_record now) [0..<P]"
  by (simp add: synthesize_def predictive_record_def reactive_record_def filter_map o_def)

lemma filter_react_synth:
  "filter (\<lambda>r. \<not> is_predictive r) (synthesize P R now) = map (reactive_record now) [0..<R]"
  by (simp add: synthesize_def predictive_record_def reactive_record_def filter_map o_def)

lemma calculate_analytics_synthesize:
  "0 < P + R \<Longrightarrow> calculate_analytics (synthesize P R now) =
     Inr \<lparr>total_maintenance_events = int (P + R),
          predictive_maintenance_count = int P,
          reactive_maintenance_count = Some (int R),
          total_cost_predictive = real P * 6500,
          total_cost_reactive = Some (real R * 52000),
          total_savings = real P * 45500,
          downtime_hours_saved = int P * 42,
          flights_cancelled_avoided = int P * 3\<rparr>"
proof -
  assume "0 < P + R"
  then have ne: "synthesize P R now \<noteq> []" by (auto simp: synthesize_def)
  have len: "length (synthesize P R now) = P + R" by (simp add: synthesize_def)
  have pc: "sum_list (map (total_cost \<circ> predictive_record now) [0..<P]) = real P * 6500"
    by (simp add: predictive_record_def o_def sum_list_triv)
  have rc: "sum_list (map (total_cost \<circ> reactive_record now) [0..<R]) = real R * 52000"
    by (simp add: reactive_record_def o_def sum_list_triv)
  have pd: "sum_list (map (downtime_hours \<circ> predictive_record now) [0..<P]) = int P * 6"
    by (simp add: predictive_record_def o_def sum_list_triv)
  show ?thesis
    unfolding calculate_analytics_nonempty[OF ne] sum_if_count sum_if_filter
      filter_pred_synth filter_react_synth len
    by (simp add: pc rc pd)
qed

text \<open>
  Claim C2. The aggregator derives the savings as a counterfactual with fixed constants:
  the avoided reactive cost is the number of predictive events times 52000, the savings are
  that minus the summed cost of the predictive events, the downtime saved is the number of
  predictive events times 48 minus their summed downtime, and the flights saved are three
  per predictive event. On the 12 predictive and 3 reactive events of the synthesizer it
  gives predictive cost 78000, reactive cost 156000, savings 546000, downtime saved 504
  and flights saved 36.
\<close>

theorem counterfactual_savings:
  "(calculate_analytics rows = Inr a \<longrightarrow>
      predictive_maintenance_count a = int (length (filter is_predictive rows))
      \<and> total_cost_predictive a = sum_list (map total_cost (filter is_predictive rows))
      \<and> total_savings a
           = real_of_int (predictive_maintenance_count a * 52000) - total_cost_predictive a
      \<and> downtime_hours_saved a
           = predictive_maintenance_count a * 48
               - sum_list (map downtime_hours (filter is_predictive rows))
      \<and> flights_cancelled_avoided a = predictive_maintenance_count a * 3)
   \<and> calculate_analytics (synthesize 12 3 now) =
       Inr \<lparr>total_maintenance_events = 15,
            predictive_maintenance_count = 12,
            reactive_maintenance_count = Some 3,
            total_cost_predictive = 78000,
            total_cost_reactive = Some 156000,
            total_savings = 546000,
            downtime_hours_saved = 504,
            flights_cancelled_avoided = 36\<rparr>"
proof (intro conjI impI)
  assume ok: "calculate_analytics rows = Inr a"
  then have ne: "rows \<noteq> []" using calculate_analytics_Nil by auto
  have a: "a = \<lparr>total_maintenance_events = int (length rows),
          predictive_maintenance_count = int (length (filter is_predictive rows)),
          reactive_maintenance_count = Some (int (length (filter (\<lambda>r. \<not> is_predictive r) rows))),
          total_cost_predictive = sum_list (map total_cost (filter is_predictive rows)),
          total_cost_reactive = Some (sum_list (map total_cost (filter (\<lambda>r. \<not> is_predictive r) rows))),
          total_savings = real_of_int (int (length (filter is_predictive rows)) * 52000)
             - sum_list (map total_cost (filter is_predictive rows)),
          downtime_hours_saved = int (length (filter is_predictive rows)) * 48
             - sum_list (map downtime_hours (filter is_predictive rows)),
          flights_cancelled_avoided = int (length (filter is_predictive rows)) * 3\<rparr>"
    using ok unfolding calculate_analytics_nonempty[OF ne] sum_if_count sum_if_filter by simp
  show "predictive_maintenance_count a = int (length (filter is_predictive rows))"
    by (subst a) simp
  show "total_cost_predictive a = sum_list (map total_cost (filter is_predictive rows))"
    by (subst a) simp
  show "total_savings a
           = real_of_int (predictive_maintenance_count a * 52000) - total_cost_predictive a"
    by (subst (1 2 3) a) simp
  show "downtime_hours_saved a
           = predictive_maintenance_count a * 48
               - sum_list (map downtime_hours (filter is_predictive rows))"
    by (subst (1 2) a) simp
  show "flights_cancelled_avoided a = predictive_maintenance_count a * 3"
    by (subst (1 2) a) simp
next
  show "calculate_analytics (synthesize 12 3 now) =
       Inr \<lparr>total_maintenance_events = 15,
            predictive_maintenance_count = 12,
            reactive_maintenance_count = Some 3,
            total_cost_predictive = 78000,
            total_cost_reactive = Some 156000,
            total_savings = 546000,
            downtime_hours_saved = 504,
            flights_cancelled_avoided = 36\<rparr>"
    using calculate_analytics_synthesize[of 12 3 now] by simp
qed

text \<open>
  The formulas of C2 on two predictive events and one reactive event.
\<close>

theorem counterfactual_savings_witness:
  "calculate_analytics (synthesize 2 1 0) =
       Inr \<lparr>total_maintenance_events = 3,
            predictive_maintenance_count = 2,
            reactive_maintenance_count = Some 1,
            total_cost_predictive = 13000,
            total_cost_reactive = Some 52000,
            total_savings = 91000,
            downtime_hours_saved = 84,
            flights_cancelled_avoided = 6\<rparr>
   \<and> int (length (filter is_predictive (synthesize 2 1 0))) = 2
   \<and> sum_list (map total_cost (filter is_predictive (synthesize 2 1 0))) = 13000
   \<and> (91000 :: real) = real_of_int (2 * 52000) - 13000
   \<and> (84 :: int) = 2 * 48 - sum_list (map downtime_hours (filter is_predictive (synthesize 2 1 0)))"
proof -
  have ok: "calculate_analytics (synthesize 2 1 0) =
       Inr \<lparr>total_maintenance_events = 3,
            predictive_maintenance_count = 2,
            reactive_maintenance_count = Some 1,
            total_cost_predictive = 13000,
            total_cost_reactive = Some 52000,
            total_savings = 91000,
            downtime_hours_saved = 84,
            flights_cancelled_avoided = 6\<rparr>"
    using calculate_analytics_synthesize[of 2 1 0] by simp
  show ?thesis
    using counterfactual_savings[of "synthesize 2 1 0" _ 0, THEN conjunct1, rule_format, OF ok] ok
    by simp
qed

text \<open>
  Claim C4 as stated fails on the reactive events: the thirteenth synthesized event is
  reactive, and its total of 52000 is not labor 18000 plus parts 12600 plus three
  cancellations at \<open>COST_PER_CANCELLATION\<close> = 2000 each, which would be 36600.
\<close>

theorem reactive_total_counterexample:
  "\<not> is_predictive (synthesize 12 3 0 ! 12)
   \<and> total_cost (synthesize 12 3 0 ! 12)
       \<noteq> labor_cost (synthesize 12 3 0 ! 12) + parts_cost (synthesize 12 3 0 ! 12)
           + real_of_int (REACTIVE_FLIGHT_CANCELLATIONS * COST_PER_CANCELLATION)"
  by (simp add: synthesize_def nth_append reactive_record_def
        REACTIVE_FLIGHT_CANCELLATIONS_def COST_PER_CANCELLATION_def)

text \<open>
  Claim C4, amended. Every predictive event of the synthesizer has total cost labor plus
  parts, which is \<open>TOTAL_PREDICTIVE_COST\<close> = 6500. Every reactive event has the fixed total
  cost 52000, which is labor plus parts plus the penalty of three cancellations plus a
  further 15400: the total "includes downtime, cancellations", not cancellations alone.
\<close>

theorem synthesized_totals:
  "\<forall>r \<in> set (synthesize P R now).
     (is_predictive r \<longrightarrow>
        total_cost r = labor_cost r + parts_cost r
        \<and> total_cost r = real_of_int TOTAL_PREDICTIVE_COST)
     \<and> (\<not> is_predictive r \<longrightarrow>
        total_cost r = 52000
        \<and> total_cost r = labor_cost r + parts_cost r
             + real_of_int (REACTIVE_FLIGHT_CANCELLATIONS * COST_PER_CANCELLATION) + 15400)"
  by (auto simp: synthesize_def predictive_record_def reactive_record_def
        TOTAL_PREDICTIVE_COST_def PREDICTIVE_LABOR_COST_def PREDICTIVE_PARTS_COST_def
        REACTIVE_FLIGHT_CANCELLATIONS_def COST_PER_CANCELLATION_def)

text \<open>
  The totals of the first reactive and of the first predictive event.
\<close>

theorem synthesized_totals_witness:
  "reactive_record 0 0 \<in> set (synthesize 12 3 0)
   \<and> \<not> is_predictive (reactive_record 0 0)
   \<and> total_cost (reactive_record 0 0) = 52000
   \<and> predictive_record 0 0 \<in> set (synthesize 12 3 0)
   \<and> is_predictive (predictive_record 0 0)
   \<and> total_cost (predictive_record 0 0) = 6500"
proof -
  have r: "reactive_record 0 0 \<in> set (synthesize 12 3 0)"
    and p: "predictive_record 0 0 \<in> set (synthesize 12 3 0)"
    by (simp_all add: synthesize_def)
  have nr: "\<not> is_predictive (reactive_record 0 0)" by (simp add: reactive_record_def)
  have np: "is_predictive (predictive_record 0 0)" by (simp add: predictive_record_def)
  show ?thesis
    using synthesized_totals[of 12 3 0, rule_format, OF r] synthesized_totals[of 12 3 0, rule_format, OF p]
      r p nr np
    by (simp add: TOTAL_PREDICTIVE_COST_def PREDICTIVE_LABOR_COST_def PREDICTIVE_PARTS_COST_def)
qed




lemma generate_cost_analytics_history:
  "generate_cost_analytics now db = Inr db' \<Longrightarrow>
     maintenance_history db' = maintenance_history db @ maintenance_records now"
  by (auto simp: generate_cost_analytics_def aggregate_def insert_maintenance_history_def
        split: sum.splits)

lemma aggregate_eq:
  "calculate_analytics (maintenance_history db) = Inr a \<Longrightarrow>
     aggregate db = Inr (db\<lparr>cost_analytics := (cost_analytics db)(''2024-Q4'' \<mapsto> a)\<rparr>)"
  by (simp add: aggregate_def)

text \<open>
  Claim C9. When the aggregator succeeds on a database, the row \<open>a\<close> it stores is computed
  from the maintenance events alone; the resulting database is the old one with the row of
  period \<^verbatim>\<open>2024-Q4\<close> replaced by \<open>a\<close>; aggregating again changes nothing; and whatever
  the table \<^verbatim>\<open>cost_analytics\<close> held before, the row stored for the period is the same \<open>a\<close>:
  the prior row is replaced wholesale, never read or updated.
\<close>

theorem aggregate_idempotent_upsert:
  assumes "aggregate db = Inr db'"
  shows "\<exists>a. calculate_analytics (maintenance_history db) = Inr a
           \<and> db' = db\<lparr>cost_analytics := (cost_analytics db)(''2024-Q4'' \<mapsto> a)\<rparr>
           \<and> aggregate db' = Inr db'
           \<and> (\<forall>old. aggregate (db\<lparr>cost_analytics := old\<rparr>)
                  = Inr (db\<lparr>cost_analytics := old(''2024-Q4'' \<mapsto> a)\<rparr>))"
proof -
  from assms obtain a where a: "calculate_analytics (maintenance_history db) = Inr a"
    and db': "db' = db\<lparr>cost_analytics := (cost_analytics db)(''2024-Q4'' \<mapsto> a)\<rparr>"
    by (auto simp: aggregate_def split: sum.splits)
  have "aggregate db' = Inr db'"
    using a by (simp add: aggregate_def db')
  moreover have "aggregate (db\<lparr>cost_analytics := old\<rparr>)
                  = Inr (db\<lparr>cost_analytics := old(''2024-Q4'' \<mapsto> a)\<rparr>)" for old
    using a by (simp add: aggregate_def)
  ultimately show ?thesis using a db' by blast
qed

text \<open>
  The aggregator run twice on the 15 synthesized events.
\<close>

theorem aggregate_idempotent_upsert_witness:
  "\<exists>db'. aggregate (insert_maintenance_history (maintenance_records 0) scenario_db) = Inr db'
     \<and> aggregate db' = Inr db'
     \<and> get_cost_calculator_data db' =
         Some \<lparr>total_maintenance_events = 15,
            predictive_maintenance_count = 12,
            reactive_maintenance_count = Some 3,
            total_cost_predictive = 78000,
            total_cost_reactive = Some 156000,
            total_savings = 546000,
            downtime_hours_saved = 504,
            flights_cancelled_avoided = 36\<rparr>"
proof -
  let ?db = "insert_maintenance_history (maintenance_records 0) scenario_db"
  have h: "maintenance_history ?db = synthesize 12 3 0"
    by (simp add: insert_maintenance_history_def maintenance_records_def scenario_db_def)
  have c: "calculate_analytics (synthesize 12 3 0) =
       Inr \<lparr>total_maintenance_events = 15,
            predictive_maintenance_count = 12,
            reactive_maintenance_count = Some 3,
            total_cost_predictive = 78000,
            total_cost_reactive = Some 156000,
            total_savings = 546000,
            downtime_hours_saved = 504,
            flights_cancelled_avoided = 36\<rparr>"
    using calculate_analytics_synthesize[of 12 3 0] by simp
  obtain db' where ok: "aggregate ?db = Inr db'"
    using aggregate_eq[of ?db] c h by simp
  from aggregate_idempotent_upsert[OF ok] obtain a where
    a: "calculate_analytics (maintenance_history ?db) = Inr a"
    and d: "db' = ?db\<lparr>cost_analytics := (cost_analytics ?db)(''2024-Q4'' \<mapsto> a)\<rparr>"
    and i: "aggregate db' = Inr db'"
    by blast
  have "get_cost_calculator_data db' = Some a" by (simp add: d get_cost_calculator_data_def)
  moreover have "a = \<lparr>total_maintenance_events = 15,
            predictive_maintenance_count = 12,
            reactive_maintenance_count = Some 3,
            total_cost_predictive = 78000,
            total_cost_reactive = Some 156000,
            total_savings = 546000,
            downtime_hours_saved = 504,
            flights_cancelled_avoided = 36\<rparr>"
    using a c h by simp
  ultimately show ?thesis using ok i by (intro exI[of _ db']) simp
qed



section \<open>Supplier ranking\<close>

lemma scen_ge_t1: "round_binary64 (4200 * (3602879701896397 / 9007199254740992)) = 1680"
  by code_simp

lemma scen_ge_n: "round_binary64 (real_of_int (5 * 100)) = 500"
  by code_simp

lemma scen_ge_t2: "round_binary64 (500 * (5404319552844595 / 18014398509481984)) = 150"
  by code_simp

lemma scen_ge_sub: "round_binary64 (5 + - (5404319552844595 / 1125899906842624)) = 225179981368525 / 1125899906842624"
  by code_simp

lemma scen_ge_m: "round_binary64 ((225179981368525 / 1125899906842624) * 500) = 3518437208883203 / 35184372088832"
  by code_simp

lemma scen_ge_t3: "round_binary64 ((3518437208883203 / 35184372088832) * (5404319552844595 / 18014398509481984)) = 8444249301319687 / 281474976710656"
  by code_simp

lemma scen_ge_u: "round_binary64 (1680 + 150) = 1830"
  by code_simp

lemma scen_ge_v: "round_binary64 (1830 + (8444249301319687 / 281474976710656)) = 1860"
  by code_simp

lemma scen_aar_t1: "round_binary64 (4000 * (3602879701896397 / 9007199254740992)) = 1600"
  by code_simp

lemma scen_aar_n: "round_binary64 (real_of_int (7 * 100)) = 700"
  by code_simp

lemma scen_aar_t2: "round_binary64 (700 * (5404319552844595 / 18014398509481984)) = 210"
  by code_simp

lemma scen_aar_sub: "round_binary64 (5 + - (9 / 2)) = 1 / 2"
  by code_simp

lemma scen_aar_m: "round_binary64 ((1 / 2) * 500) = 250"
  by code_simp

lemma scen_aar_t3: "round_binary64 (250 * (5404319552844595 / 18014398509481984)) = 75"
  by code_simp

lemma scen_aar_u: "round_binary64 (1600 + 210) = 1810"
  by code_simp

lemma scen_aar_v: "round_binary64 (1810 + 75) = 1885"
  by code_simp

lemma rnd_hw_t1: "round_binary64 ((7227710973472899 / 8796093022208) * (3602879701896397 / 9007199254740992)) = 361385548673645 / 1099511627776"
  by code_simp

lemma rnd_hw_n: "round_binary64 (real_of_int (4 * 100)) = 400"
  by code_simp

lemma rnd_hw_t2: "round_binary64 (400 * (5404319552844595 / 18014398509481984)) = 120"
  by code_simp

lemma rnd_hw_sub: "round_binary64 (5 + - (2589569785738035 / 562949953421312)) = 225179981368525 / 562949953421312"
  by code_simp

lemma rnd_hw_m: "round_binary64 ((225179981368525 / 562949953421312) * 500) = 3518437208883203 / 17592186044416"
  by code_simp

lemma rnd_hw_t3: "round_binary64 ((3518437208883203 / 17592186044416) * (5404319552844595 / 18014398509481984)) = 8444249301319687 / 140737488355328"
  by code_simp

lemma rnd_hw_u: "round_binary64 ((361385548673645 / 1099511627776) + 120) = 493326944006765 / 1099511627776"
  by code_simp

lemma rnd_hw_v: "round_binary64 ((493326944006765 / 1099511627776) + (8444249301319687 / 140737488355328)) = 8948762266773201 / 17592186044416"
  by code_simp

lemma rnd_ge_t1: "round_binary64 ((1806927743368225 / 2199023255552) * (3602879701896397 / 9007199254740992)) = 361385548673645 / 1099511627776"
  by code_simp

lemma rnd_ge_n: "round_binary64 (real_of_int (5 * 100)) = 500"
  by code_simp

lemma rnd_ge_t2: "round_binary64 (500 * (5404319552844595 / 18014398509481984)) = 150"
  by code_simp

lemma rnd_ge_sub: "round_binary64 (5 + - (5404319552844595 / 1125899906842624)) = 225179981368525 / 1125899906842624"
  by code_simp

lemma rnd_ge_m: "round_binary64 ((225179981368525 / 1125899906842624) * 500) = 3518437208883203 / 35184372088832"
  by code_simp

lemma rnd_ge_t3: "round_binary64 ((3518437208883203 / 35184372088832) * (5404319552844595 / 18014398509481984)) = 8444249301319687 / 281474976710656"
  by code_simp

lemma rnd_ge_u: "round_binary64 ((361385548673645 / 1099511627776) + 150) = 526312292840045 / 1099511627776"
  by code_simp

lemma rnd_ge_v: "round_binary64 ((526312292840045 / 1099511627776) + (8444249301319687 / 281474976710656)) = 559297641673325 / 1099511627776"
  by code_simp

lemma lit_c48: "round_binary64 (24 / 5) = 5404319552844595 / 1125899906842624"
  by code_simp

lemma lit_c45: "round_binary64 (9 / 2) = 9 / 2"
  by code_simp

lemma lit_c46: "round_binary64 (23 / 5) = 2589569785738035 / 562949953421312"
  by code_simp

lemma lit_c4: "round_binary64 (2 / 5) = 3602879701896397 / 9007199254740992"
  by code_simp

lemma lit_c3: "round_binary64 (3 / 10) = 5404319552844595 / 18014398509481984"
  by code_simp

lemma round_5: "round_binary64 5 = 5"
  by code_simp

lemma round_500: "round_binary64 500 = 500"
  by code_simp

lemma round_100: "round_binary64 100 = 100"
  by code_simp

lemma order_by_limit_1_None: "order_by_limit_1 key rows = None \<longleftrightarrow> rows = []"
proof -
  have "sort_key key rows = [] \<longleftrightarrow> rows = []"
    by (metis length_sort length_0_conv)
  then show ?thesis by (auto simp: order_by_limit_1_def split: list.splits)
qed

lemma order_by_limit_1_Some:
  assumes "order_by_limit_1 key rows = Some x"
  shows "x \<in> set rows \<and> (\<forall>y \<in> set rows. key x \<le> key y)"
proof -
  from assms obtain ys where s: "sort_key key rows = x # ys"
    by (auto simp: order_by_limit_1_def split: list.splits)
  have "set (x # ys) = set rows" unfolding s[symmetric] by simp
  moreover have "sorted (map key (x # ys))" unfolding s[symmetric] by (rule sorted_sort_key)
  ultimately show ?thesis by auto
qed

lemma find_best_supplier_Some:
  assumes "supplier_offers db part_number \<noteq> []"
  shows "\<exists>best \<in> set (supplier_offers db part_number).
           (\<forall>other \<in> set (supplier_offers db part_number). sql_le (score best) (score other))
           \<and> find_best_supplier db part_number = Some (summary best)"
proof -
  let ?key = "\<lambda>row. order_key (score row)"
  from assms obtain best where b: "order_by_limit_1 ?key (supplier_offers db part_number) = Some best"
    using order_by_limit_1_None[of ?key "supplier_offers db part_number"]
    by (cases "order_by_limit_1 ?key (supplier_offers db part_number)") auto
  have "find_best_supplier db part_number = Some (summary best)"
    by (simp add: find_best_supplier_def b)
  moreover have "best \<in> set (supplier_offers db part_number)"
    and "\<forall>other \<in> set (supplier_offers db part_number). sql_le (score best) (score other)"
    using order_by_limit_1_Some[OF b] by (simp_all add: sql_le_def)
  ultimately show ?thesis by blast
qed

lemma sql_le_Finite: "sql_le (Some (Finite x)) (Some (Finite y)) \<longleftrightarrow> x \<le> y"
  by (simp add: sql_le_def order_key_def)

lemma to_double_small:
  assumes "round_binary64 x = y" and "\<bar>y\<bar> \<le> 1000000"
  shows "to_double x = Finite y"
proof -
  have "(2::real) ^ 20 \<le> 2 ^ 1024" by (rule power_increasing) simp_all
  then have "(1000000::real) < 2 ^ 1024" by simp
  then have "\<not> 2 ^ 1024 \<le> y" and "\<not> y \<le> - (2 ^ 1024)" using assms(2) by linarith+
  then show ?thesis by (simp add: to_double_def Let_def assms(1))
qed

lemma score_eval:
  assumes p: "sp_unit_price sp = p" and d: "sp_delivery_days sp = d" and r: "s_rating s = r"
    and i64: "in_int64 (d * 100)"
    and t1: "round_binary64 (p * (3602879701896397 / 9007199254740992)) = t1" "\<bar>t1\<bar> \<le> 1000000"
    and n: "round_binary64 (real_of_int (d * 100)) = n" "\<bar>n\<bar> \<le> 1000000"
    and t2: "round_binary64 (n * (5404319552844595 / 18014398509481984)) = t2" "\<bar>t2\<bar> \<le> 1000000"
    and sub: "round_binary64 (5 + - r) = sub" "\<bar>sub\<bar> \<le> 1000000"
    and m: "round_binary64 (sub * 500) = m" "\<bar>m\<bar> \<le> 1000000"
    and t3: "round_binary64 (m * (5404319552844595 / 18014398509481984)) = t3" "\<bar>t3\<bar> \<le> 1000000"
    and u: "round_binary64 (t1 + t2) = u" "\<bar>u\<bar> \<le> 1000000"
    and v: "round_binary64 (u + t3) = v" "\<bar>v\<bar> \<le> 1000000"
  shows "score (sp, s) = Some (Finite v)"
proof -
  have c4: "sql_literal (4 / 10) = Some (Finite (3602879701896397 / 9007199254740992))"
    unfolding sql_literal_def by (simp add: to_double_small[OF lit_c4])
  have c3: "sql_literal (3 / 10) = Some (Finite (5404319552844595 / 18014398509481984))"
    unfolding sql_literal_def by (simp add: to_double_small[OF lit_c3])
  have five: "int_to_real 5 = Some (Finite 5)"
    unfolding int_to_real_def by (simp add: to_double_small[OF round_5])
  have h: "int_to_real 500 = Some (Finite 500)"
    unfolding int_to_real_def by (simp add: to_double_small[OF round_500])
  have a1: "sql_mul (Some (Finite (sp_unit_price sp))) (sql_literal (4 / 10)) = Some (Finite t1)"
    unfolding c4 p by (simp only: sql_mul_def prod.case option.case d_mul.simps to_double_small[OF t1])
  have a2: "int_mul (sp_delivery_days sp) 100 = Some (Finite n)"
    unfolding d int_mul_def int_to_real_def using i64 by (simp only: if_True to_double_small[OF n])
  have a3: "sql_mul (Some (Finite n)) (sql_literal (3 / 10)) = Some (Finite t2)"
    unfolding c3 by (simp only: sql_mul_def prod.case option.case d_mul.simps to_double_small[OF t2])
  have a4: "sql_sub (int_to_real 5) (Some (Finite (s_rating s))) = Some (Finite sub)"
    unfolding five r by (simp only: sql_sub_def prod.case option.case d_neg.simps d_add.simps to_double_small[OF sub])
  have a5: "sql_mul (Some (Finite sub)) (int_to_real 500) = Some (Finite m)"
    unfolding h by (simp only: sql_mul_def prod.case option.case d_mul.simps to_double_small[OF m])
  have a6: "sql_mul (Some (Finite m)) (sql_literal (3 / 10)) = Some (Finite t3)"
    unfolding c3 by (simp only: sql_mul_def prod.case option.case d_mul.simps to_double_small[OF t3])
  have a7: "sql_add (Some (Finite t1)) (Some (Finite t2)) = Some (Finite u)"
    by (simp only: sql_add_def prod.case option.case d_add.simps to_double_small[OF u])
  have a8: "sql_add (Some (Finite u)) (Some (Finite t3)) = Some (Finite v)"
    by (simp only: sql_add_def prod.case option.case d_add.simps to_double_small[OF v])
  show ?thesis
    unfolding score_def by (simp only: prod.case a1 a2 a3 a4 a5 a6 a7 a8)
qed

lemma lit_c48': "round_binary64 (24 / 5) = 5404319552844595 / 1125899906842624"
  using lit_c48 by simp

lemma lit_c45': "round_binary64 (9 / 2) = 9 / 2"
  using lit_c45 by simp

lemma lit_c46': "round_binary64 (23 / 5) = 2589569785738035 / 562949953421312"
  using lit_c46 by simp

lemma scenario_offers:
  "supplier_offers scenario_db ''HPT-8472-A'' =
     [(\<lparr>sp_supplier_id = ''SUP-001'', sp_part_number = ''HPT-8472-A'', sp_unit_price = 4200,
          sp_min_quantity = 1, sp_delivery_days = 5\<rparr>,
       \<lparr>s_supplier_id = ''SUP-001'', s_name = ''GE Aviation Parts'',
          s_location = ''Cincinnati, OH'', s_rating = round_binary64 (48 / 10),
          s_avg_delivery_days = 5, s_reliability_score = round_binary64 (98 / 100)\<rparr>),
      (\<lparr>sp_supplier_id = ''SUP-004'', sp_part_number = ''HPT-8472-A'', sp_unit_price = 4000,
          sp_min_quantity = 1, sp_delivery_days = 7\<rparr>,
       \<lparr>s_supplier_id = ''SUP-004'', s_name = ''AAR Corp'',
          s_location = ''Wood Dale, IL'', s_rating = round_binary64 (45 / 10),
          s_avg_delivery_days = 4, s_reliability_score = round_binary64 (94 / 100)\<rparr>)]"
  by (simp add: supplier_offers_def scenario_db_def)

lemma scenario_no_offer: "supplier_offers scenario_db ''FAN-3392-B'' = []"
  by (simp add: supplier_offers_def scenario_db_def)

lemma rounding_offers:
  "supplier_offers rounding_db ''SEAL-4432-D'' =
     [(\<lparr>sp_supplier_id = ''SUP-005'', sp_part_number = ''SEAL-4432-D'',
          sp_unit_price = 7227710973472899 / 8796093022208,
          sp_min_quantity = 1, sp_delivery_days = 4\<rparr>,
       \<lparr>s_supplier_id = ''SUP-005'', s_name = ''Honeywell Aerospace'',
          s_location = ''Phoenix, AZ'', s_rating = round_binary64 (46 / 10),
          s_avg_delivery_days = 5, s_reliability_score = round_binary64 (95 / 100)\<rparr>),
      (\<lparr>sp_supplier_id = ''SUP-001'', sp_part_number = ''SEAL-4432-D'',
          sp_unit_price = 1806927743368225 / 2199023255552,
          sp_min_quantity = 1, sp_delivery_days = 5\<rparr>,
       \<lparr>s_supplier_id = ''SUP-001'', s_name = ''GE Aviation Parts'',
          s_location = ''Cincinnati, OH'', s_rating = round_binary64 (48 / 10),
          s_avg_delivery_days = 5, s_reliability_score = round_binary64 (98 / 100)\<rparr>)]"
  by (simp add: supplier_offers_def rounding_db_def)

lemma score_scenario_ge:
  "score (\<lparr>sp_supplier_id = ''SUP-001'', sp_part_number = ''HPT-8472-A'', sp_unit_price = 4200,
          sp_min_quantity = 1, sp_delivery_days = 5\<rparr>,
       \<lparr>s_supplier_id = ''SUP-001'', s_name = ''GE Aviation Parts'',
          s_location = ''Cincinnati, OH'', s_rating = round_binary64 (48 / 10),
          s_avg_delivery_days = 5, s_reliability_score = round_binary64 (98 / 100)\<rparr>)
     = Some (Finite 1860)"
  by (rule score_eval[OF _ _ _ _ scen_ge_t1 _ scen_ge_n _ scen_ge_t2 _ scen_ge_sub _ scen_ge_m _
        scen_ge_t3 _ scen_ge_u _ scen_ge_v])
     (simp_all add: in_int64_def lit_c48')

lemma score_scenario_aar:
  "score (\<lparr>sp_supplier_id = ''SUP-004'', sp_part_number = ''HPT-8472-A'', sp_unit_price = 4000,
          sp_min_quantity = 1, sp_delivery_days = 7\<rparr>,
       \<lparr>s_supplier_id = ''SUP-004'', s_name = ''AAR Corp'',
          s_location = ''Wood Dale, IL'', s_rating = round_binary64 (45 / 10),
          s_avg_delivery_days = 4, s_reliability_score = round_binary64 (94 / 100)\<rparr>)
     = Some (Finite 1885)"
  by (rule score_eval[OF _ _ _ _ scen_aar_t1 _ scen_aar_n _ scen_aar_t2 _ scen_aar_sub _ scen_aar_m _
        scen_aar_t3 _ scen_aar_u _ scen_aar_v])
     (simp_all add: in_int64_def lit_c45')

lemma score_rounding_hw:
  "score (\<lparr>sp_supplier_id = ''SUP-005'', sp_part_number = ''SEAL-4432-D'',
          sp_unit_price = 7227710973472899 / 8796093022208,
          sp_min_quantity = 1, sp_delivery_days = 4\<rparr>,
       \<lparr>s_supplier_id = ''SUP-005'', s_name = ''Honeywell Aerospace'',
          s_location = ''Phoenix, AZ'', s_rating = round_binary64 (46 / 10),
          s_avg_delivery_days = 5, s_reliability_score = round_binary64 (95 / 100)\<rparr>)
     = Some (Finite (8948762266773201 / 17592186044416))"
  by (rule score_eval[OF _ _ _ _ rnd_hw_t1 _ rnd_hw_n _ rnd_hw_t2 _ rnd_hw_sub _ rnd_hw_m _
        rnd_hw_t3 _ rnd_hw_u _ rnd_hw_v])
     (simp_all add: in_int64_def lit_c46')

lemma score_rounding_ge:
  "score (\<lparr>sp_supplier_id = ''SUP-001'', sp_part_number = ''SEAL-4432-D'',
          sp_unit_price = 1806927743368225 / 2199023255552,
          sp_min_quantity = 1, sp_delivery_days = 5\<rparr>,
       \<lparr>s_supplier_id = ''SUP-001'', s_name = ''GE Aviation Parts'',
          s_location = ''Cincinnati, OH'', s_rating = round_binary64 (48 / 10),
          s_avg_delivery_days = 5, s_reliability_score = round_binary64 (98 / 100)\<rparr>)
     = Some (Finite (559297641673325 / 1099511627776))"
  by (rule score_eval[OF _ _ _ _ rnd_ge_t1 _ rnd_ge_n _ rnd_ge_t2 _ rnd_ge_sub _ rnd_ge_m _
        rnd_ge_t3 _ rnd_ge_u _ rnd_ge_v])
     (simp_all add: in_int64_def lit_c48')

lemma scenario_scores:
  "map score (supplier_offers scenario_db ''HPT-8472-A'') = [Some (Finite 1860), Some (Finite 1885)]"
  unfolding scenario_offers by (simp only: list.map score_scenario_ge score_scenario_aar)

lemma order_by_limit_1_two:
  "order_by_limit_1 key [a, b] = Some (if key a \<le> key b then a else b)"
  by (simp add: order_by_limit_1_def)

lemma scenario_best:
  "find_best_supplier scenario_db ''HPT-8472-A'' =
     Some \<lparr>supplier = ''GE Aviation Parts'', location = ''Cincinnati, OH'',
           rating = round_binary64 (48 / 10), price = 4200, delivery_days = 5,
           reliability = round_binary64 (98 / 100)\<rparr>"
proof -
  let ?a = "(\<lparr>sp_supplier_id = ''SUP-001'', sp_part_number = ''HPT-8472-A'', sp_unit_price = 4200,
          sp_min_quantity = 1, sp_delivery_days = 5\<rparr>,
       \<lparr>s_supplier_id = ''SUP-001'', s_name = ''GE Aviation Parts'',
          s_location = ''Cincinnati, OH'', s_rating = round_binary64 (48 / 10),
          s_avg_delivery_days = 5, s_reliability_score = round_binary64 (98 / 100)\<rparr>)"
  let ?b = "(\<lparr>sp_supplier_id = ''SUP-004'', sp_part_number = ''HPT-8472-A'', sp_unit_price = 4000,
          sp_min_quantity = 1, sp_delivery_days = 7\<rparr>,
       \<lparr>s_supplier_id = ''SUP-004'', s_name = ''AAR Corp'',
          s_location = ''Wood Dale, IL'', s_rating = round_binary64 (45 / 10),
          s_avg_delivery_days = 4, s_reliability_score = round_binary64 (94 / 100)\<rparr>)"
  have ka: "order_key (score ?a) = (2, 1860)"
    by (simp only: score_scenario_ge order_key_def option.case double.case)
  have kb: "order_key (score ?b) = (2, 1885)"
    by (simp only: score_scenario_aar order_key_def option.case double.case)
  have "order_by_limit_1 (\<lambda>row. order_key (score row)) [?a, ?b] = Some ?a"
    by (simp only: order_by_limit_1_two ka kb) simp
  then show ?thesis
    unfolding find_best_supplier_def scenario_offers by (simp add: summary_def)
qed

lemma rounding_best:
  "find_best_supplier rounding_db ''SEAL-4432-D'' =
     Some \<lparr>supplier = ''GE Aviation Parts'', location = ''Cincinnati, OH'',
           rating = round_binary64 (48 / 10), price = 1806927743368225 / 2199023255552,
           delivery_days = 5, reliability = round_binary64 (98 / 100)\<rparr>"
proof -
  let ?a = "(\<lparr>sp_supplier_id = ''SUP-005'', sp_part_number = ''SEAL-4432-D'',
          sp_unit_price = 7227710973472899 / 8796093022208,
          sp_min_quantity = 1, sp_delivery_days = 4\<rparr>,
       \<lparr>s_supplier_id = ''SUP-005'', s_name = ''Honeywell Aerospace'',
          s_location = ''Phoenix, AZ'', s_rating = round_binary64 (46 / 10),
          s_avg_delivery_days = 5, s_reliability_score = round_binary64 (95 / 100)\<rparr>)"
  let ?b = "(\<lparr>sp_supplier_id = ''SUP-001'', sp_part_number = ''SEAL-4432-D'',
          sp_unit_price = 1806927743368225 / 2199023255552,
          sp_min_quantity = 1, sp_delivery_days = 5\<rparr>,
       \<lparr>s_supplier_id = ''SUP-001'', s_name = ''GE Aviation Parts'',
          s_location = ''Cincinnati, OH'', s_rating = round_binary64 (48 / 10),
          s_avg_delivery_days = 5, s_reliability_score = round_binary64 (98 / 100)\<rparr>)"
  have ka: "order_key (score ?a) = (2, 8948762266773201 / 17592186044416)"
    by (simp only: score_rounding_hw order_key_def option.case double.case)
  have kb: "order_key (score ?b) = (2, 559297641673325 / 1099511627776)"
    by (simp only: score_rounding_ge order_key_def option.case double.case)
  have "order_by_limit_1 (\<lambda>row. order_key (score row)) [?a, ?b] = Some ?b"
    by (simp only: order_by_limit_1_two ka kb) simp
  then show ?thesis
    unfolding find_best_supplier_def rounding_offers by (simp add: summary_def)
qed

lemma rounding_spec_scores:
  "spec_score (supplier_offers rounding_db ''SEAL-4432-D'' ! 0)
     < spec_score (supplier_offers rounding_db ''SEAL-4432-D'' ! 1)"
  unfolding rounding_offers by (simp add: spec_score_def lit_c46' lit_c48')

text \<open>
  Claim C3 as stated fails: for the two offers of \<open>rounding_db\<close> the ranker returns GE
  Aviation Parts, the second stored offer, although the score of the specification, in
  exact arithmetic, is smaller for the first. In binary64 arithmetic the order of the two
  scores is the other way round.
\<close>

theorem ranker_exact_score_counterexample:
  "find_best_supplier rounding_db ''SEAL-4432-D'' =
     Some (summary (supplier_offers rounding_db ''SEAL-4432-D'' ! 1))
   \<and> supplier (summary (supplier_offers rounding_db ''SEAL-4432-D'' ! 1)) = ''GE Aviation Parts''
   \<and> spec_score (supplier_offers rounding_db ''SEAL-4432-D'' ! 0)
       < spec_score (supplier_offers rounding_db ''SEAL-4432-D'' ! 1)"
proof (intro conjI)
  show "find_best_supplier rounding_db ''SEAL-4432-D'' =
     Some (summary (supplier_offers rounding_db ''SEAL-4432-D'' ! 1))"
    unfolding rounding_best rounding_offers by (simp add: summary_def)
  show "supplier (summary (supplier_offers rounding_db ''SEAL-4432-D'' ! 1)) = ''GE Aviation Parts''"
    unfolding rounding_offers by (simp add: summary_def)
  show "spec_score (supplier_offers rounding_db ''SEAL-4432-D'' ! 0)
       < spec_score (supplier_offers rounding_db ''SEAL-4432-D'' ! 1)"
    by (rule rounding_spec_scores)
qed

text \<open>
  Claim C3, amended. When the part has at least one offer, the ranker returns the summary
  of an offer whose score, as SQLite evaluates the expression in binary64 arithmetic, is
  minimal among the offers of the part in the order of \<^verbatim>\<open>ORDER BY\<close>. For the two offers
  of the scenario these scores are 1860 and 1885, and the ranker returns the first.
\<close>

theorem ranker_selects_minimal_double_score:
  "(supplier_offers db part_number \<noteq> [] \<longrightarrow>
      (\<exists>best \<in> set (supplier_offers db part_number).
         (\<forall>other \<in> set (supplier_offers db part_number). sql_le (score best) (score other))
         \<and> find_best_supplier db part_number = Some (summary best)))
   \<and> map score (supplier_offers scenario_db ''HPT-8472-A'')
       = [Some (Finite 1860), Some (Finite 1885)]
   \<and> find_best_supplier scenario_db ''HPT-8472-A'' =
       Some \<lparr>supplier = ''GE Aviation Parts'', location = ''Cincinnati, OH'',
             rating = round_binary64 (48 / 10), price = 4200, delivery_days = 5,
             reliability = round_binary64 (98 / 100)\<rparr>"
  using find_best_supplier_Some[of db part_number] scenario_scores scenario_best by blast

text \<open>
  The general statement of C3 at \<open>rounding_db\<close>.
\<close>

theorem ranker_selects_minimal_double_score_witness:
  "supplier_offers rounding_db ''SEAL-4432-D'' \<noteq> []
   \<and> (\<exists>best \<in> set (supplier_offers rounding_db ''SEAL-4432-D'').
         (\<forall>other \<in> set (supplier_offers rounding_db ''SEAL-4432-D'').
            sql_le (score best) (score other))
         \<and> find_best_supplier rounding_db ''SEAL-4432-D'' = Some (summary best))"
proof -
  have ne: "supplier_offers rounding_db ''SEAL-4432-D'' \<noteq> []"
    unfolding rounding_offers by simp
  show ?thesis
    using ranker_selects_minimal_double_score[of rounding_db "''SEAL-4432-D''",
        THEN conjunct1, rule_format, OF ne] ne
    by (intro conjI)
qed

text \<open>
  Claim C8. The ranker returns \<^verbatim>\<open>None\<close>, a value and not an exception, exactly when the
  part has no offer. When it has one, the ranker returns the name, location, rating,
  price, delivery days and reliability of the selected offer: an offer of the part whose
  score is minimal among the offers of the part in the order of \<^verbatim>\<open>ORDER BY\<close>.
\<close>

theorem ranker_not_found_or_selected_summary:
  "(find_best_supplier db part_number = None \<longleftrightarrow> supplier_offers db part_number = [])
   \<and> (supplier_offers db part_number \<noteq> [] \<longrightarrow>
        (\<exists>(sp, s) \<in> set (supplier_offers db part_number).
           (\<forall>other \<in> set (supplier_offers db part_number). sql_le (score (sp, s)) (score other))
           \<and> find_best_supplier db part_number =
               Some \<lparr>supplier = s_name s, location = s_location s, rating = s_rating s,
                     price = sp_unit_price sp, delivery_days = sp_delivery_days sp,
                     reliability = s_reliability_score s\<rparr>))"
proof (intro conjI impI)
  show "find_best_supplier db part_number = None \<longleftrightarrow> supplier_offers db part_number = []"
    using order_by_limit_1_None[of "\<lambda>row. order_key (score row)" "supplier_offers db part_number"]
    by (auto simp: find_best_supplier_def split: option.splits)
next
  assume "supplier_offers db part_number \<noteq> []"
  then obtain best where b: "best \<in> set (supplier_offers db part_number)"
    and m: "\<forall>other \<in> set (supplier_offers db part_number). sql_le (score best) (score other)"
    and f: "find_best_supplier db part_number = Some (summary best)"
    using find_best_supplier_Some by blast
  obtain sp s where e: "best = (sp, s)" by (cases best)
  show "\<exists>(sp, s) \<in> set (supplier_offers db part_number).
           (\<forall>other \<in> set (supplier_offers db part_number). sql_le (score (sp, s)) (score other))
           \<and> find_best_supplier db part_number =
               Some \<lparr>supplier = s_name s, location = s_location s, rating = s_rating s,
                     price = sp_unit_price sp, delivery_days = sp_delivery_days sp,
                     reliability = s_reliability_score s\<rparr>"
    using b m f unfolding e by (intro bexI[of _ "(sp, s)"]) (simp_all add: summary_def)
qed

text \<open>
  The ranker on a part without offers, and on a part whose selected offer is the second
  stored one.
\<close>

theorem ranker_not_found_or_selected_summary_witness:
  "supplier_offers scenario_db ''FAN-3392-B'' = []
   \<and> find_best_supplier scenario_db ''FAN-3392-B'' = None
   \<and> supplier_offers rounding_db ''SEAL-4432-D'' \<noteq> []
   \<and> (\<exists>(sp, s) \<in> set (supplier_offers rounding_db ''SEAL-4432-D'').
           (\<forall>other \<in> set (supplier_offers rounding_db ''SEAL-4432-D'').
              sql_le (score (sp, s)) (score other))
           \<and> find_best_supplier rounding_db ''SEAL-4432-D'' =
               Some \<lparr>supplier = s_name s, location = s_location s, rating = s_rating s,
                     price = sp_unit_price sp, delivery_days = sp_delivery_days sp,
                     reliability = s_reliability_score s\<rparr>)
   \<and> find_best_supplier rounding_db ''SEAL-4432-D'' =
       Some \<lparr>supplier = ''GE Aviation Parts'', location = ''Cincinnati, OH'',
             rating = round_binary64 (48 / 10), price = 1806927743368225 / 2199023255552,
             delivery_days = 5, reliability = round_binary64 (98 / 100)\<rparr>"
proof -
  have ne: "supplier_offers rounding_db ''SEAL-4432-D'' \<noteq> []"
    unfolding rounding_offers by simp
  have none: "find_best_supplier scenario_db ''FAN-3392-B'' = None"
    using ranker_not_found_or_selected_summary[of scenario_db "''FAN-3392-B''", THEN conjunct1]
      scenario_no_offer by simp
  show ?thesis
    using ranker_not_found_or_selected_summary[of rounding_db "''SEAL-4432-D''",
        THEN conjunct2, rule_format, OF ne]
      none scenario_no_offer ne rounding_best
    by (intro conjI)
qed

section \<open>Degradation series\<close>

lemma set_unique: "set (unique xs) = set xs"
  by (induction xs rule: unique.induct) auto

lemma cycle_loop_keys_aux:
  "cycle_loop B u cycles cs g = (rows, g') \<Longrightarrow>
     map (\<lambda>r. (unit_id r, time_cycle r)) rows = map (\<lambda>c. (u, c)) cs"
proof (induction cs arbitrary: g rows g')
  case Nil
  then show ?case by simp
next
  case (Cons c cs)
  then show ?case by (fastforce split: prod.splits)
qed

lemma cycle_loop_keys:
  "map (\<lambda>r. (unit_id r, time_cycle r)) (fst (cycle_loop B u cycles cs g)) = map (\<lambda>c. (u, c)) cs"
  using cycle_loop_keys_aux[of B u cycles cs g] by (cases "cycle_loop B u cycles cs g") simp

lemma cycle_loop_unit: "r \<in> set (fst (cycle_loop B u cycles cs g)) \<Longrightarrow> unit_id r = u"
proof -
  assume "r \<in> set (fst (cycle_loop B u cycles cs g))"
  then have "(unit_id r, time_cycle r) \<in> set (map (\<lambda>r. (unit_id r, time_cycle r)) (fst (cycle_loop B u cycles cs g)))"
    by (simp add: image_iff) blast
  then show ?thesis unfolding cycle_loop_keys by auto
qed

lemma cycle_loop_cycles: "map time_cycle (fst (cycle_loop B u cycles cs g)) = cs"
proof -
  have "map snd (map (\<lambda>r. (unit_id r, time_cycle r)) (fst (cycle_loop B u cycles cs g))) = map snd (map (\<lambda>c. (u, c)) cs)"
    by (simp only: cycle_loop_keys)
  then show ?thesis by (simp add: o_def)
qed

lemma calculate_rul_Nil: "calculate_rul [] = []"
  by (simp add: calculate_rul_def)

lemma removeAll_all: "\<forall>x \<in> set xs. x = u \<Longrightarrow> removeAll u xs = []"
  by (induction xs) auto

lemma calculate_rul_block:
  assumes b: "\<forall>r \<in> set b. unit_id r = u" and rest: "\<forall>r \<in> set rest. unit_id r \<noteq> u" and ne: "b \<noteq> []"
  shows "calculate_rul (b @ rest) =
           map (\<lambda>r. Max (set (map time_cycle b)) - time_cycle r) b @ calculate_rul rest"
proof -
  obtain r0 b' where bb: "b = r0 # b'" using ne by (cases b) auto
  have r0u: "unit_id r0 = u" and b'u: "\<forall>r \<in> set b'. unit_id r = u"
    using b by (simp_all add: bb)
  have "removeAll u (map unit_id b') = []"
    by (rule removeAll_all) (use b'u in auto)
  moreover have "removeAll u (map unit_id rest) = map unit_id rest"
    by (rule removeAll_id) (use rest in auto)
  ultimately have rm: "removeAll u (map unit_id (b' @ rest)) = map unit_id rest"
    by simp
  have uq: "unique (map unit_id (b @ rest)) = u # unique (map unit_id rest)"
    unfolding bb using rm r0u by simp
  have fb: "filter (\<lambda>row. unit_id row = u) (b @ rest) = b"
  proof -
    have "filter (\<lambda>row. unit_id row = u) b = b" using b by (simp add: filter_id_conv)
    moreover have "filter (\<lambda>row. unit_id row = u) rest = []" using rest by (simp add: filter_empty_conv)
    ultimately show ?thesis by simp
  qed
  have fr: "filter (\<lambda>row. unit_id row = u') (b @ rest) = filter (\<lambda>row. unit_id row = u') rest"
    if "u' \<in> set (unique (map unit_id rest))" for u'
  proof -
    have "u' \<noteq> u" using that rest by (auto simp: set_unique)
    then have "filter (\<lambda>row. unit_id row = u') b = []" using b by (simp add: filter_empty_conv)
    then show ?thesis by simp
  qed
  define rul_of where "rul_of df u' =
     (let unit_data = filter (\<lambda>row. unit_id row = u') df;
          max_cycle = Max (set (map time_cycle unit_data))
      in map (\<lambda>row. max_cycle - time_cycle row) unit_data)" for df :: "reading list" and u'
  have cr: "calculate_rul df = concat (map (rul_of df) (unique (map unit_id df)))" for df
    unfolding calculate_rul_def rul_of_def ..
  have 1: "rul_of (b @ rest) u = map (\<lambda>r. Max (set (map time_cycle b)) - time_cycle r) b"
    unfolding rul_of_def fb Let_def ..
  have 2: "map (rul_of (b @ rest)) (unique (map unit_id rest)) = map (rul_of rest) (unique (map unit_id rest))"
    by (rule map_cong[OF refl]) (simp only: rul_of_def fr)
  show ?thesis
    unfolding cr uq by (simp only: list.map concat.simps 1 2)
qed

lemma Max_upto: "1 \<le> N \<Longrightarrow> Max {1..N} = (N::int)"
  by (rule Max_eqI) auto

lemma unit_loop_structure:
  "unit_loop B low high us g = Inr train \<Longrightarrow> distinct us \<Longrightarrow>
     (\<forall>r \<in> set train. unit_id r \<in> set us) \<and>
     length (calculate_rul train) = length train \<and>
     length (lifespans B low high us g) = length us \<and>
     map (\<lambda>(r, rul). (unit_id r, time_cycle r, rul)) (zip train (calculate_rul train)) =
       concat (map (\<lambda>(u, N). map (\<lambda>c. (u, c, N - c)) [1..N]) (zip us (lifespans B low high us g)))"
proof (induction us arbitrary: g train)
  case Nil
  then show ?case by (simp add: calculate_rul_Nil)
next
  case (Cons u us)
  from Cons.prems(1) obtain N g1 where ri: "randint B low high g = Inr (N, g1)"
    by (auto split: sum.splits)
  define b where "b = fst (cycle_loop B u N [1..N] g1)"
  define g2 where "g2 = snd (cycle_loop B u N [1..N] g1)"
  have cl: "cycle_loop B u N [1..N] g1 = (b, g2)" by (simp add: b_def g2_def)
  from Cons.prems(1) ri cl obtain rest where ul: "unit_loop B low high us g2 = Inr rest"
    and tr: "train = b @ rest"
    by (auto split: sum.splits)
  from Cons.prems(2) have d: "distinct us" and un: "u \<notin> set us" by auto
  note IH = Cons.IH[OF ul d]
  have bu: "\<forall>r \<in> set b. unit_id r = u" unfolding b_def by (auto dest: cycle_loop_unit)
  have ru: "\<forall>r \<in> set rest. unit_id r \<noteq> u" using IH un by auto
  have bc: "map time_cycle b = [1..N]" by (simp add: b_def cycle_loop_cycles)
  have ls: "lifespans B low high (u # us) g = N # lifespans B low high us g2"
    by (simp add: ri g2_def)
  have rul: "calculate_rul (b @ rest) = map (\<lambda>r. N - time_cycle r) b @ calculate_rul rest"
  proof (cases "b = []")
    case True
    then show ?thesis by simp
  next
    case False
    then have "1 \<le> N" using bc by (cases "1 \<le> N") auto
    then have "Max (set (map time_cycle b)) = N" by (simp add: bc Max_upto)
    then show ?thesis using calculate_rul_block[OF bu ru False] by simp
  qed
  have zb: "map (\<lambda>(r, rul). (unit_id r, time_cycle r, rul)) (zip b (map (\<lambda>r. N - time_cycle r) b))
      = map (\<lambda>c. (u, c, N - c)) [1..N]"
  proof -
    have "map (\<lambda>(r, rul). (unit_id r, time_cycle r, rul)) (zip b (map (\<lambda>r. N - time_cycle r) b))
        = map (\<lambda>r. (unit_id r, time_cycle r, N - time_cycle r)) b"
      by (simp add: zip_map2 zip_same_conv_map o_def)
    also have "\<dots> = map (\<lambda>r. (u, time_cycle r, N - time_cycle r)) b"
      using bu by simp
    also have "\<dots> = map (\<lambda>c. (u, c, N - c)) (map time_cycle b)"
      by (simp add: o_def)
    finally show ?thesis by (simp add: bc)
  qed
  show ?case
    unfolding tr ls rul using IH bu by (auto simp: zb simp del: lifespans.simps)
qed

lemma filter_blocks:
  "distinct (map fst ps) \<Longrightarrow> map_of ps u = Some N \<Longrightarrow>
     filter (\<lambda>t. fst t = u) (concat (map (\<lambda>(u, N). map (\<lambda>c. (u, c, N - c)) [1..N]) ps))
       = map (\<lambda>c. (u, c, N - c)) [1..N]"
proof (induction ps)
  case Nil
  then show ?case by simp
next
  case (Cons p ps)
  obtain u0 N0 where p: "p = (u0, N0)" by (cases p)
  show ?case
  proof (cases "u0 = u")
    case True
    then have N: "N0 = N" using Cons.prems(2) p by simp
    have "u \<notin> fst ` set ps" using Cons.prems(1) p True by simp
    then have "filter (\<lambda>t. fst t = u) (concat (map (\<lambda>(u, N). map (\<lambda>c. (u, c, N - c)) [1..N]) ps)) = []"
      by (auto simp: filter_empty_conv image_iff)
    then show ?thesis using True N p by (simp add: filter_id_conv)
  next
    case False
    then have "filter (\<lambda>t. fst t = u) (map (\<lambda>c. (u0, c, N0 - c)) [1..N0]) = []"
      by (auto simp: filter_empty_conv)
    moreover have "map_of ps u = Some N" using Cons.prems(2) p False by simp
    moreover have "distinct (map fst ps)" using Cons.prems(1) by simp
    ultimately show ?thesis using Cons.IH p by simp
  qed
qed

lemma randint_range:
  assumes "randint B low high g = Inr (N, g')"
  shows "low \<le> N \<and> N < high"
proof -
  from assms have lt: "low < high" and N: "N = low + int (fst (next_raw B g)) mod (high - low)"
    by (auto simp: randint_def split: if_splits prod.splits)
  have "0 \<le> int (fst (next_raw B g)) mod (high - low)"
    and "int (fst (next_raw B g)) mod (high - low) < high - low"
    using lt by simp_all
  then show ?thesis unfolding N by linarith
qed

lemma lifespans_range: "N \<in> set (lifespans B low high us g) \<Longrightarrow> low \<le> N \<and> N < high"
proof (induction us arbitrary: g)
  case Nil
  then show ?case by simp
next
  case (Cons u us)
  show ?case
  proof (cases "randint B low high g")
    case (Inl e)
    then show ?thesis using Cons.prems by simp
  next
    case (Inr p)
    obtain N0 g1 where p: "p = (N0, g1)" by (cases p)
    have "low \<le> N0 \<and> N0 < high" using randint_range[of B low high g N0 g1] Inr p by simp
    then show ?thesis using Cons.prems Cons.IH Inr p by auto
  qed
qed

lemma unit_loop_ok: "low < high \<Longrightarrow> \<exists>train. unit_loop B low high us g = Inr train"
proof (induction us arbitrary: g)
  case Nil
  then show ?case by simp
next
  case (Cons u us)
  obtain r g1 where nr: "next_raw B g = (r, g1)" by (cases "next_raw B g")
  have ri: "randint B low high g = Inr (low + int r mod (high - low), g1)"
    using Cons.prems nr by (simp add: randint_def)
  obtain rows g2 where cl: "cycle_loop B u (low + int r mod (high - low)) [1..low + int r mod (high - low)] g1 = (rows, g2)"
    by (cases "cycle_loop B u (low + int r mod (high - low)) [1..low + int r mod (high - low)] g1")
  obtain rest where "unit_loop B low high us g2 = Inr rest" using Cons.IH[OF Cons.prems] by blast
  then show ?case by (simp add: ri cl)
qed

lemma unit_loop_fails: "high \<le> low \<Longrightarrow> us \<noteq> [] \<Longrightarrow> unit_loop B low high us g = Inl ValueError"
  by (cases us) (simp_all add: randint_def)

lemma create_ok:
  assumes "min_cycles < max_cycles" "0 \<le> seed" "seed < 2 ^ 32"
  shows "\<exists>df. create_nasa_sample_data_with B unit_count min_cycles max_cycles seed g = Inr df"
proof -
  obtain train where t: "unit_loop B min_cycles max_cycles [1..unit_count] (seed_state B seed) = Inr train"
    using unit_loop_ok[OF assms(1), of B "[1..unit_count]" "seed_state B seed"] by blast
  have "length (calculate_rul train) = length train"
    using unit_loop_structure[OF t] by simp
  then show ?thesis using assms t
    by (simp add: create_nasa_sample_data_with_def np_seed_def assign_column_def)
qed

lemma create_projection:
  assumes "create_nasa_sample_data_with B unit_count min_cycles max_cycles seed g = Inr df"
  shows "map (\<lambda>(r, rul). (unit_id r, time_cycle r, rul)) df =
       concat (map (\<lambda>(u, N). map (\<lambda>c. (u, c, N - c)) [1..N])
         (zip [1..unit_count] (lifespans B min_cycles max_cycles [1..unit_count] (seed_state B seed))))"
proof -
  from assms obtain train where
    t: "unit_loop B min_cycles max_cycles [1..unit_count] (seed_state B seed) = Inr train"
    and df: "df = zip train (calculate_rul train)"
    by (auto simp: create_nasa_sample_data_with_def np_seed_def assign_column_def split: if_splits sum.splits)
  show ?thesis using unit_loop_structure[OF t] df by simp
qed

lemma unit_rows:
  assumes ok: "create_nasa_sample_data_with B unit_count min_cycles max_cycles seed g = Inr df"
    and N: "map_of (zip [1..unit_count]
              (lifespans B min_cycles max_cycles [1..unit_count] (seed_state B seed))) u = Some N"
  shows "map (\<lambda>(r, rul). (time_cycle r, rul)) (filter (\<lambda>(r, rul). unit_id r = u) df)
           = map (\<lambda>c. (c, N - c)) [1..N]"
proof -
  let ?Ns = "lifespans B min_cycles max_cycles [1..unit_count] (seed_state B seed)"
  let ?proj = "\<lambda>(r, rul). (unit_id r, time_cycle r, rul)"
  from ok obtain train where
    t: "unit_loop B min_cycles max_cycles [1..unit_count] (seed_state B seed) = Inr train"
    by (auto simp: create_nasa_sample_data_with_def np_seed_def split: if_splits sum.splits)
  have len: "length ?Ns = length [1..unit_count]" using unit_loop_structure[OF t] by simp
  have d: "distinct (map fst (zip [1..unit_count] ?Ns))" using len by simp
  have "map ?proj (filter (\<lambda>(r, rul). unit_id r = u) df)
          = filter (\<lambda>t. fst t = u) (map ?proj df)"
    by (simp add: filter_map o_def case_prod_unfold)
  also have "\<dots> = map (\<lambda>c. (u, c, N - c)) [1..N]"
    unfolding create_projection[OF ok] by (rule filter_blocks[OF d N])
  finally have "map (snd \<circ> ?proj) (filter (\<lambda>(r, rul). unit_id r = u) df)
        = map snd (map (\<lambda>c. (u, c, N - c)) [1..N])"
    by (simp only: map_map[symmetric])
  then show ?thesis by (simp add: o_def case_prod_unfold)
qed

lemma snd_uniform: "snd (uniform B low high g) = snd (next_raw B g)"
  by (simp add: uniform_def split: prod.splits)

lemma funpow3: "(f ^^ 3) x = f (f (f x))"
  by (simp add: eval_nat_numeral)

lemma snd_cycle_loop:
  "snd (cycle_loop B u cycles cs g) = ((\<lambda>g. snd (next_raw B g)) ^^ (3 * length cs)) g"
proof (induction cs arbitrary: g)
  case Nil
  then show ?case by simp
next
  case (Cons c cs)
  have "snd (cycle_loop B u cycles (c # cs) g)
      = snd (cycle_loop B u cycles cs (snd (uniform B 100 100 (snd (uniform B 0.0000 0.0005 (snd (uniform B (- 0.0007) 0.0020 g)))))))"
    by (simp add: Let_def split: prod.splits)
  also have "\<dots> = ((\<lambda>g. snd (next_raw B g)) ^^ (3 * length cs)) (snd (next_raw B (snd (next_raw B (snd (next_raw B g))))))"
    unfolding Cons.IH snd_uniform ..
  also have "\<dots> = ((\<lambda>g. snd (next_raw B g)) ^^ (3 * length cs + 3)) g"
    by (simp add: funpow_add funpow3)
  finally show ?case by (simp add: add.commute)
qed

lemma funpow6: "(f ^^ 6) x = f (f (f (f (f (f x)))))"
  by (simp add: eval_nat_numeral)

lemma lcg_lifespans: "lifespans lcg 2 4 [1..2] (seed_state lcg 42) = [2, 3]"
proof -
  have units: "[1..2] = [1, 2::int]" by (simp add: upto.simps)
  have r1: "randint lcg 2 4 (42::nat) = Inr (2, 5)" by (simp add: randint_def lcg_def)
  have s1: "snd (cycle_loop lcg 1 2 [1..2] (5::nat)) = 3"
    unfolding snd_cycle_loop by (simp add: funpow6 lcg_def)
  have r2: "randint lcg 2 4 (3::nat) = Inr (3, 2)" by (simp add: randint_def lcg_def)
  have s0: "seed_state lcg 42 = 42" by (simp add: lcg_def)
  show ?thesis
    unfolding units s0 by (simp add: r1 s1 r2 del: cycle_loop.simps)
qed

text \<open>
  Claim C1. Let \<open>N\<close> be the lifespan drawn for unit \<open>u\<close>. The readings of \<open>u\<close> are, in
  order, the cycles \<open>1, \<dots>, N\<close>, each with RUL \<open>N - c\<close>; so every cycle of \<open>1..N\<close> has
  a reading with that RUL, the RUL of every reading of the unit is non-negative and is 0
  exactly at the cycle \<open>N\<close>, and within the unit a later cycle has a strictly smaller RUL.
\<close>

theorem rul_is_lifespan_minus_cycle:
  assumes ok: "create_nasa_sample_data_with B unit_count min_cycles max_cycles seed g = Inr df"
    and N: "map_of (zip [1..unit_count]
              (lifespans B min_cycles max_cycles [1..unit_count] (seed_state B seed))) u = Some N"
  shows "map (\<lambda>(row, rul). (time_cycle row, rul)) (filter (\<lambda>(row, rul). unit_id row = u) df)
             = map (\<lambda>c. (c, N - c)) [1..N]
         \<and> (\<forall>c \<in> {1..N}. \<exists>row. (row, N - c) \<in> set df \<and> unit_id row = u \<and> time_cycle row = c)
         \<and> (\<forall>(row, rul) \<in> set df. unit_id row = u \<longrightarrow>
               time_cycle row \<in> {1..N} \<and> rul = N - time_cycle row \<and> 0 \<le> rul
               \<and> (rul = 0 \<longleftrightarrow> time_cycle row = N))
         \<and> (\<forall>(row, rul) \<in> set df. \<forall>(row', rul') \<in> set df.
               unit_id row = u \<and> unit_id row' = u \<and> time_cycle row < time_cycle row'
                 \<longrightarrow> rul' < rul)"
proof -
  let ?rows = "filter (\<lambda>(row, rul). unit_id row = u) df"
  have eq: "map (\<lambda>(row, rul). (time_cycle row, rul)) ?rows = map (\<lambda>c. (c, N - c)) [1..N]"
    by (rule unit_rows[OF ok N])
  have mem: "time_cycle row \<in> {1..N} \<and> rul = N - time_cycle row"
    if "(row, rul) \<in> set df" "unit_id row = u" for row rul
  proof -
    have "(row, rul) \<in> set ?rows" using that by simp
    then have "(time_cycle row, rul) \<in> set (map (\<lambda>(row, rul). (time_cycle row, rul)) ?rows)"
      by (force simp del: set_filter)
    then show ?thesis unfolding eq by auto
  qed
  have ex: "\<exists>row. (row, N - c) \<in> set df \<and> unit_id row = u \<and> time_cycle row = c"
    if "c \<in> {1..N}" for c
  proof -
    have "(c, N - c) \<in> set (map (\<lambda>c. (c, N - c)) [1..N])" using that by simp
    then have "(c, N - c) \<in> set (map (\<lambda>(row, rul). (time_cycle row, rul)) ?rows)"
      by (simp only: eq)
    then show ?thesis by auto
  qed
  have sd: "rul' < rul"
    if "(row, rul) \<in> set df" "(row', rul') \<in> set df" "unit_id row = u" "unit_id row' = u"
      "time_cycle row < time_cycle row'" for row rul row' rul'
  proof -
    have "rul = N - time_cycle row" using mem[of row rul] that by simp
    moreover have "rul' = N - time_cycle row'" using mem[of row' rul'] that by simp
    ultimately show "rul' < rul" using that(5) by simp
  qed
  show ?thesis
  proof (intro conjI)
    show "map (\<lambda>(row, rul). (time_cycle row, rul)) ?rows = map (\<lambda>c. (c, N - c)) [1..N]"
      by (rule eq)
    show "\<forall>c \<in> {1..N}. \<exists>row. (row, N - c) \<in> set df \<and> unit_id row = u \<and> time_cycle row = c"
      using ex by blast
    show "\<forall>(row, rul) \<in> set df. unit_id row = u \<longrightarrow>
               time_cycle row \<in> {1..N} \<and> rul = N - time_cycle row \<and> 0 \<le> rul
               \<and> (rul = 0 \<longleftrightarrow> time_cycle row = N)"
    proof (rule ballI)
      fix p assume p: "p \<in> set df"
      obtain row rul where pe: "p = (row, rul)" by (cases p)
      have "unit_id row = u \<longrightarrow> time_cycle row \<in> {1..N} \<and> rul = N - time_cycle row \<and> 0 \<le> rul
               \<and> (rul = 0 \<longleftrightarrow> time_cycle row = N)"
        using mem[of row rul] p pe by auto
      then show "case p of (row, rul) \<Rightarrow> unit_id row = u \<longrightarrow>
               time_cycle row \<in> {1..N} \<and> rul = N - time_cycle row \<and> 0 \<le> rul
               \<and> (rul = 0 \<longleftrightarrow> time_cycle row = N)"
        unfolding pe by auto
    qed
    show "\<forall>(row, rul) \<in> set df. \<forall>(row', rul') \<in> set df.
               unit_id row = u \<and> unit_id row' = u \<and> time_cycle row < time_cycle row'
                 \<longrightarrow> rul' < rul"
    proof (rule ballI)
      fix p assume p: "p \<in> set df"
      obtain row rul where pe: "p = (row, rul)" by (cases p)
      have "\<forall>(row', rul') \<in> set df.
               unit_id row = u \<and> unit_id row' = u \<and> time_cycle row < time_cycle row'
                 \<longrightarrow> rul' < rul"
      proof (rule ballI)
        fix q assume q: "q \<in> set df"
        obtain row' rul' where qe: "q = (row', rul')" by (cases q)
        show "case q of (row', rul') \<Rightarrow>
               unit_id row = u \<and> unit_id row' = u \<and> time_cycle row < time_cycle row'
                 \<longrightarrow> rul' < rul"
          unfolding qe using sd[of row rul row' rul'] p q pe qe by simp
      qed
      then show "case p of (row, rul) \<Rightarrow> \<forall>(row', rul') \<in> set df.
               unit_id row = u \<and> unit_id row' = u \<and> time_cycle row < time_cycle row'
                 \<longrightarrow> rul' < rul"
        unfolding pe by simp
    qed
  qed
qed

text \<open>
  The theorem at work on the generator \<open>lcg\<close>, two units and \<^verbatim>\<open>randint(2, 4)\<close>: the second
  unit draws the lifespan 3.
\<close>

theorem rul_is_lifespan_minus_cycle_witness:
  "\<exists>df. create_nasa_sample_data_with lcg 2 2 4 42 0 = Inr df
     \<and> map_of (zip [1..2] (lifespans lcg 2 4 [1..2] (seed_state lcg 42))) 2 = Some 3
     \<and> map (\<lambda>(row, rul). (time_cycle row, rul)) (filter (\<lambda>(row, rul). unit_id row = 2) df)
          = [(1, 2), (2, 1), (3, 0)]"
proof -
  obtain df where ok: "create_nasa_sample_data_with lcg 2 2 4 42 0 = Inr df"
    using create_ok[of 2 4 42 lcg 2 0] by auto
  have N: "map_of (zip [1..2] (lifespans lcg 2 4 [1..2] (seed_state lcg 42))) 2 = Some 3"
    unfolding lcg_lifespans by (simp add: upto.simps)
  have "map (\<lambda>(row, rul). (time_cycle row, rul)) (filter (\<lambda>(row, rul). unit_id row = 2) df)
          = [(1, 2), (2, 1), (3, 0)]"
    using rul_is_lifespan_minus_cycle[OF ok N, THEN conjunct1] by (simp add: upto.simps)
  then show ?thesis using ok N by (intro exI[of _ df]) simp
qed

text \<open>
  Claim C5. The lifespan is not drawn from the inclusive range: with both bounds 150 the
  call \<^verbatim>\<open>randint(150, 150)\<close> raises \<^verbatim>\<open>ValueError\<close>, so no reading is produced, and with
  the bounds of the program, \<^verbatim>\<open>randint(150, 350)\<close>, every lifespan lies in \<open>150..349\<close>:
  the documented maximum of 350 cycles is never drawn.
\<close>

theorem lifespan_excludes_max_cycles:
  "create_nasa_sample_data_with B 2 150 150 seed g = Inl ValueError
   \<and> set (lifespans B 150 350 [1..100] (seed_state B 42)) \<subseteq> {150..349}"
proof
  have "unit_loop B 150 150 [1..2] g0 = Inl ValueError" for g0
    by (rule unit_loop_fails) (simp_all add: upto.simps)
  then show "create_nasa_sample_data_with B 2 150 150 seed g = Inl ValueError"
    by (simp add: create_nasa_sample_data_with_def np_seed_def)
  show "set (lifespans B 150 350 [1..100] (seed_state B 42)) \<subseteq> {150..349}"
  proof
    fix N assume "N \<in> set (lifespans B 150 350 [1..100] (seed_state B 42))"
    then have "150 \<le> N \<and> N < 350" by (rule lifespans_range)
    then show "N \<in> {150..349}" by simp
  qed
qed

text \<open>
  Claim C6. The generator is deterministic: its result is a function of the unit count,
  the bounds and the seed alone. The state \<open>g\<close> in which the global generator happens to
  be when the function is entered has no influence, since the function seeds it first.
\<close>

theorem generator_deterministic:
  "create_nasa_sample_data_with B unit_count min_cycles max_cycles seed g
     = create_nasa_sample_data_with B unit_count min_cycles max_cycles seed g'
   \<and> create_nasa_sample_data B g = create_nasa_sample_data B g'"
  by (simp add: create_nasa_sample_data_def create_nasa_sample_data_with_def np_seed_def)

end
